theory Spec2Isabelle
  imports Main "HOL-Library.Word"
begin

section \<open>JavaScript strings\<close>

text \<open>
  A JavaScript string is a sequence of 16-bit code units. \<open>length\<close>, \<open>trim\<close> and a
  regular expression without the \<open>u\<close> flag all work on code units, so the model keeps
  them: a string is a list of 16-bit words. Class names, element ids and alert types
  are ASCII identifiers and are kept as HOL strings; \<open>utf16\<close> gives the code units of
  an ASCII literal.
\<close>

type_synonym code_unit = "16 word"
type_synonym jsstring = "code_unit list"

definition utf16 :: "string \<Rightarrow> jsstring" where
  "utf16 s = map (\<lambda>c. of_nat (of_char c)) s"

text \<open>
  The code units that \<open>String.prototype.trim\<close> strips and that \<open>\s\<close> matches are the
  same set: WhiteSpace (TAB, VT, FF, SP, NBSP, ZWNBSP and the category Zs) and
  LineTerminator (LF, CR, LS, PS).
\<close>

definition is_white_space :: "code_unit \<Rightarrow> bool" where
  "is_white_space c \<longleftrightarrow>
     c = 0x0009 \<or> c = 0x000A \<or> c = 0x000B \<or> c = 0x000C \<or> c = 0x000D \<or>
     c = 0x0020 \<or> c = 0x00A0 \<or> c = 0x1680 \<or> (0x2000 \<le> c \<and> c \<le> 0x200A) \<or>
     c = 0x2028 \<or> c = 0x2029 \<or> c = 0x202F \<or> c = 0x205F \<or> c = 0x3000 \<or>
     c = 0xFEFF"

definition trim :: "jsstring \<Rightarrow> jsstring" where
  "trim s = rev (dropWhile is_white_space (rev (dropWhile is_white_space s)))"

definition commercial_at :: code_unit where
  "commercial_at = 0x40"

definition full_stop :: code_unit where
  "full_stop = 0x2E"

section \<open>Regular expressions\<close>

text \<open>
  The patterns of the script use character classes, concatenation and \<open>+\<close> only, with
  no capture that is read, so \<open>test\<close> and the truth value of \<open>match\<close> are language
  membership. The matcher works by derivatives; \<open>lang\<close> is the set of words it accepts.
\<close>

datatype 'a regex =
    Never
  | Eps
  | Cls "'a \<Rightarrow> bool"
  | Alt "'a regex" "'a regex"
  | Seq "'a regex" "'a regex"
  | Star "'a regex"

fun nullable :: "'a regex \<Rightarrow> bool" where
  "nullable Never = False"
| "nullable Eps = True"
| "nullable (Cls p) = False"
| "nullable (Alt r s) = (nullable r \<or> nullable s)"
| "nullable (Seq r s) = (nullable r \<and> nullable s)"
| "nullable (Star r) = True"

fun deriv :: "'a \<Rightarrow> 'a regex \<Rightarrow> 'a regex" where
  "deriv a Never = Never"
| "deriv a Eps = Never"
| "deriv a (Cls p) = (if p a then Eps else Never)"
| "deriv a (Alt r s) = Alt (deriv a r) (deriv a s)"
| "deriv a (Seq r s) =
     (if nullable r then Alt (Seq (deriv a r) s) (deriv a s) else Seq (deriv a r) s)"
| "deriv a (Star r) = Seq (deriv a r) (Star r)"

fun matches :: "'a regex \<Rightarrow> 'a list \<Rightarrow> bool" where
  "matches r [] = nullable r"
| "matches r (a # w) = matches (deriv a r) w"

text \<open>\<open>r+\<close>: one or more repetitions.\<close>

definition Many1 :: "'a regex \<Rightarrow> 'a regex" where
  "Many1 r = Seq r (Star r)"

definition any_unit :: "'a regex" where
  "any_unit = Cls (\<lambda>_. True)"

text \<open>
  \<open>re_test_anchored\<close> is \<open>/^r$/.test(s)\<close> (no \<open>m\<close> flag: \<open>^\<close> and \<open>$\<close> are the two ends
  of the input); \<open>re_search\<close> is the truth value of \<open>s.match(/r/)\<close>, a match anywhere.
\<close>

definition re_test_anchored :: "'a regex \<Rightarrow> 'a list \<Rightarrow> bool" where
  "re_test_anchored r s = matches r s"

definition re_search :: "'a regex \<Rightarrow> 'a list \<Rightarrow> bool" where
  "re_search r s = matches (Seq (Star any_unit) (Seq r (Star any_unit))) s"

definition conc :: "'a list set \<Rightarrow> 'a list set \<Rightarrow> 'a list set" where
  "conc A B = {u @ v | u v. u \<in> A \<and> v \<in> B}"

inductive_set star :: "'a list set \<Rightarrow> 'a list set" for A :: "'a list set" where
  star_nil: "[] \<in> star A"
| star_app: "u \<in> A \<Longrightarrow> v \<in> star A \<Longrightarrow> u @ v \<in> star A"

fun lang :: "'a regex \<Rightarrow> 'a list set" where
  "lang Never = {}"
| "lang Eps = {[]}"
| "lang (Cls p) = {[a] | a. p a}"
| "lang (Alt r s) = lang r \<union> lang s"
| "lang (Seq r s) = conc (lang r) (lang s)"
| "lang (Star r) = star (lang r)"

section \<open>Form validation: the pure checks\<close>

text \<open>\<open>[^\s@]\<close>\<close>

definition not_space_or_at :: "code_unit \<Rightarrow> bool" where
  "not_space_or_at c \<longleftrightarrow> \<not> (is_white_space c \<or> c = commercial_at)"

text \<open>The body of \<open>/^[^\s@]+@[^\s@]+\.[^\s@]+$/\<close>.\<close>

definition email_re :: "code_unit regex" where
  "email_re =
     Seq (Many1 (Cls not_space_or_at))
       (Seq (Cls (\<lambda>c. c = commercial_at))
         (Seq (Many1 (Cls not_space_or_at))
           (Seq (Cls (\<lambda>c. c = full_stop))
             (Many1 (Cls not_space_or_at)))))"

definition validateEmail :: "jsstring \<Rightarrow> bool" where
  "validateEmail email = re_test_anchored email_re email"

definition validatePassword :: "jsstring \<Rightarrow> bool" where
  "validatePassword password \<longleftrightarrow> length password \<ge> 8"

section \<open>Password strength\<close>

text \<open>\<open>[a-z]\<close>, \<open>[A-Z]\<close>, \<open>[0-9]\<close> and \<open>[^a-zA-Z0-9]\<close>.\<close>

definition is_lower :: "code_unit \<Rightarrow> bool" where
  "is_lower c \<longleftrightarrow> 0x61 \<le> c \<and> c \<le> 0x7A"

definition is_upper :: "code_unit \<Rightarrow> bool" where
  "is_upper c \<longleftrightarrow> 0x41 \<le> c \<and> c \<le> 0x5A"

definition is_digit :: "code_unit \<Rightarrow> bool" where
  "is_digit c \<longleftrightarrow> 0x30 \<le> c \<and> c \<le> 0x39"

definition is_other :: "code_unit \<Rightarrow> bool" where
  "is_other c \<longleftrightarrow> \<not> (is_lower c \<or> is_upper c \<or> is_digit c)"

text \<open>The local variable \<open>strength\<close> of \<open>updatePasswordStrength\<close> after its four tests.\<close>

definition strength :: "jsstring \<Rightarrow> nat" where
  "strength password =
     (let s0 = 0;
          s1 = (if length password \<ge> 8 then s0 + 1 else s0);
          s2 = (if re_search (Cls is_lower) password \<and> re_search (Cls is_upper) password
                then s1 + 1 else s1);
          s3 = (if re_search (Cls is_digit) password then s2 + 1 else s2);
          s4 = (if re_search (Cls is_other) password then s3 + 1 else s3)
      in s4)"

text \<open>The class that the strength bar gets for a score.\<close>

definition strength_class :: "nat \<Rightarrow> string" where
  "strength_class n =
     (if n \<le> 1 then ''strength-weak''
      else if n \<le> 3 then ''strength-medium''
      else ''strength-strong'')"

section \<open>The document\<close>

text \<open>
  The script works on the page it is loaded in. An element is a node with a class list,
  a text content and, for a form control, a value and the default value that
  \<open>form.reset()\<close> restores. The page's markup is not part of the script, so the answers
  of the DOM queries that the script makes are components of the document:
  \<open>getElementById\<close>, \<open>input.closest('.form-group')\<close>,
  \<open>formGroup.querySelector('.error-message')\<close>,
  \<open>form.querySelectorAll('input, textarea, select')\<close>, the controls that a form
  resets, \<open>button.closest('.key-item')\<close> and \<open>keyItem.querySelector('.key-value')\<close>.
  The validation primitives and the listeners add and remove the classes \<open>error\<close>,
  \<open>success\<close> and \<open>show\<close> only, none of which occurs in a selector, so these answers
  do not change while a listener runs. \<open>custom_alerts\<close> lists the \<open>.custom-alert\<close>
  elements of the document in document order; \<open>created\<close> counts the elements created
  so far and gives each new alert its identity.
\<close>

type_synonym node = nat

record element =
  classList :: "string list"
  textContent :: jsstring
  el_value :: jsstring
  defaultValue :: jsstring

record alert_element =
  alert_ref :: nat
  alert_className :: string
  alert_message :: jsstring
  alert_background :: "string option"

record document =
  elements :: "node \<Rightarrow> element"
  getElementById :: "string \<Rightarrow> node option"
  closest_form_group :: "node \<Rightarrow> node option"
  error_message_in :: "node \<Rightarrow> node option"
  form_inputs :: "node \<Rightarrow> node list"
  form_listed :: "node \<Rightarrow> node list"
  closest_key_item :: "node \<Rightarrow> node option"
  key_value_in :: "node \<Rightarrow> node option"
  custom_alerts :: "alert_element list"
  created :: nat
  dismiss_timers :: "nat list"
  label_timers :: "(node \<times> jsstring) list"
  body_textareas :: "jsstring list"

text \<open>
  A call either returns or throws; the exception carries the document as it was when
  it was thrown, since what the handler did before stays done.
\<close>

datatype js_error = TypeError

datatype 'a result = Done 'a | Thrown js_error document

fun and_then :: "'a result \<Rightarrow> ('a \<Rightarrow> 'b result) \<Rightarrow> 'b result" where
  "and_then (Done x) f = f x"
| "and_then (Thrown e d) f = Thrown e d"

fun returned :: "'a result \<Rightarrow> bool" where
  "returned (Done x) = True"
| "returned (Thrown e d) = False"

text \<open>The document after a call on it has returned or thrown.\<close>

fun document_after :: "document result \<Rightarrow> document" where
  "document_after (Done d) = d"
| "document_after (Thrown e d) = d"

subsection \<open>Class lists and element properties\<close>

definition token_add :: "string \<Rightarrow> string list \<Rightarrow> string list" where
  "token_add c cs = (if c \<in> set cs then cs else cs @ [c])"

definition token_remove :: "string \<Rightarrow> string list \<Rightarrow> string list" where
  "token_remove c cs = removeAll c cs"

definition update_element :: "node \<Rightarrow> (element \<Rightarrow> element) \<Rightarrow> document \<Rightarrow> document" where
  "update_element n f d = d\<lparr>elements := (elements d)(n := f (elements d n))\<rparr>"

definition classList_add :: "node \<Rightarrow> string \<Rightarrow> document \<Rightarrow> document" where
  "classList_add n c = update_element n (\<lambda>el. el\<lparr>classList := token_add c (classList el)\<rparr>)"

definition classList_remove :: "node \<Rightarrow> string \<Rightarrow> document \<Rightarrow> document" where
  "classList_remove n c =
     update_element n (\<lambda>el. el\<lparr>classList := token_remove c (classList el)\<rparr>)"

definition set_className :: "node \<Rightarrow> string \<Rightarrow> document \<Rightarrow> document" where
  "set_className n c = update_element n (\<lambda>el. el\<lparr>classList := [c]\<rparr>)"

definition set_textContent :: "node \<Rightarrow> jsstring \<Rightarrow> document \<Rightarrow> document" where
  "set_textContent n t = update_element n (\<lambda>el. el\<lparr>textContent := t\<rparr>)"

definition has_class :: "document \<Rightarrow> node \<Rightarrow> string \<Rightarrow> bool" where
  "has_class d n c \<longleftrightarrow> c \<in> set (classList (elements d n))"

definition value_of :: "document \<Rightarrow> node \<Rightarrow> jsstring" where
  "value_of d n = el_value (elements d n)"

subsection \<open>Field validation primitives\<close>

text \<open>
  \<open>input.closest('.form-group')\<close> is \<open>null\<close> when the input has no such ancestor, and
  \<open>formGroup.querySelector\<close> on \<open>null\<close> throws before anything is changed.
\<close>

definition showError :: "node \<Rightarrow> jsstring \<Rightarrow> document \<Rightarrow> document result" where
  "showError input message d =
     (case closest_form_group d input of
        None \<Rightarrow> Thrown TypeError d
      | Some formGroup \<Rightarrow>
          let errorElement = error_message_in d formGroup;
              d1 = classList_add input ''error'' d;
              d2 = classList_remove input ''success'' d1
          in (case errorElement of
                Some e \<Rightarrow> Done (classList_add e ''show'' (set_textContent e message d2))
              | None \<Rightarrow> Done d2))"

definition showSuccess :: "node \<Rightarrow> document \<Rightarrow> document result" where
  "showSuccess input d =
     (case closest_form_group d input of
        None \<Rightarrow> Thrown TypeError d
      | Some formGroup \<Rightarrow>
          let errorElement = error_message_in d formGroup;
              d1 = classList_remove input ''error'' d;
              d2 = classList_add input ''success'' d1
          in (case errorElement of
                Some e \<Rightarrow> Done (classList_remove e ''show'' d2)
              | None \<Rightarrow> Done d2))"

definition clearValidation :: "node \<Rightarrow> document \<Rightarrow> document result" where
  "clearValidation input d =
     (case closest_form_group d input of
        None \<Rightarrow> Thrown TypeError d
      | Some formGroup \<Rightarrow>
          let errorElement = error_message_in d formGroup;
              d1 = classList_remove input ''success'' (classList_remove input ''error'' d)
          in (case errorElement of
                Some e \<Rightarrow> Done (classList_remove e ''show'' d1)
              | None \<Rightarrow> Done d1))"

text \<open>
  The three visual states of a field: \<open>Error\<close> holds when the field carries the class
  \<open>error\<close>, \<open>Success\<close> when it carries \<open>success\<close>, \<open>Neutral\<close> when it carries neither.
  \<open>visual_states\<close> lists the ones that hold.
\<close>

datatype visual_state = Neutral | Error | Success

definition visual_states :: "document \<Rightarrow> node \<Rightarrow> visual_state list" where
  "visual_states d n =
     (if has_class d n ''error'' then [Error] else []) @
     (if has_class d n ''success'' then [Success] else []) @
     (if \<not> has_class d n ''error'' \<and> \<not> has_class d n ''success'' then [Neutral] else [])"

text \<open>Calls of the three primitives, one after the other, each from its own event.\<close>

datatype validation_call =
    ShowError node jsstring
  | ShowSuccess node
  | ClearValidation node

fun run_call :: "validation_call \<Rightarrow> document \<Rightarrow> document result" where
  "run_call (ShowError n m) d = showError n m d"
| "run_call (ShowSuccess n) d = showSuccess n d"
| "run_call (ClearValidation n) d = clearValidation n d"

fun run_calls :: "validation_call list \<Rightarrow> document \<Rightarrow> document" where
  "run_calls [] d = d"
| "run_calls (c # cs) d = run_calls cs (document_after (run_call c d))"

section \<open>Alerts\<close>

text \<open>
  \<open>showAlert\<close> removes every \<open>.custom-alert\<close> element, creates the new one, styles it
  by its type, appends it to the body and starts the timer that removes it after
  5000 ms. A click on the close button and the timer both call \<open>alert.remove()\<close>.

  The source assigns the template with the message in it to \<open>innerHTML\<close>, so the
  message is parsed as markup. A message without \<open><\<close> holds no tag: the parser builds
  a text node from it and no element, and the element built from the template is the
  alert itself with its \<open>span\<close> and its close button. \<open>showAlert\<close> below is the call
  for such a message, which is what every call site of the script passes
  (\<open>script_alert_messages\<close>); it says nothing about a message that carries markup.
\<close>

definition less_than_sign :: code_unit where
  "less_than_sign = 0x3C"

definition markup_free :: "jsstring \<Rightarrow> bool" where
  "markup_free message \<longleftrightarrow> less_than_sign \<notin> set message"

text \<open>The messages of the six calls of \<open>showAlert\<close> in the script, in source order.\<close>

definition script_alert_messages :: "jsstring list" where
  "script_alert_messages =
     [utf16 ''Thank you! Your message has been sent successfully.'',
      utf16 ''Login functionality would be handled by your backend.'',
      utf16 ''Account created successfully!'',
      utf16 ''Copied to clipboard!'',
      utf16 ''Copied to clipboard!'',
      utf16 ''Failed to copy'']"

definition alert_style :: "string \<Rightarrow> string option" where
  "alert_style type =
     (if type = ''success'' then Some ''#dcfce7''
      else if type = ''error'' then Some ''#fee2e2''
      else if type = ''info'' then Some ''#eff6ff''
      else None)"

definition showAlert :: "string \<Rightarrow> jsstring \<Rightarrow> document \<Rightarrow> document" where
  "showAlert type message d =
     (let d1 = d\<lparr>custom_alerts := []\<rparr>;
          alert = \<lparr>alert_ref = created d1,
                   alert_className = ''custom-alert alert-'' @ type,
                   alert_message = message,
                   alert_background = alert_style type\<rparr>;
          d2 = d1\<lparr>created := created d1 + 1\<rparr>;
          d3 = d2\<lparr>custom_alerts := custom_alerts d2 @ [alert]\<rparr>
      in d3\<lparr>dismiss_timers := dismiss_timers d3 @ [alert_ref alert]\<rparr>)"

definition alert_remove :: "nat \<Rightarrow> document \<Rightarrow> document" where
  "alert_remove r d = d\<lparr>custom_alerts := filter (\<lambda>a. alert_ref a \<noteq> r) (custom_alerts d)\<rparr>"

datatype alert_event =
    ShowAlert string jsstring
  | CloseClick nat
  | TimerFires nat

fun alert_step :: "alert_event \<Rightarrow> document \<Rightarrow> document" where
  "alert_step (ShowAlert type message) d = showAlert type message d"
| "alert_step (CloseClick r) d = alert_remove r d"
| "alert_step (TimerFires r) d =
     alert_remove r (d\<lparr>dismiss_timers := remove1 r (dismiss_timers d)\<rparr>)"

fun alert_run :: "alert_event list \<Rightarrow> document \<Rightarrow> document" where
  "alert_run [] d = d"
| "alert_run (ev # evs) d = alert_run evs (alert_step ev d)"

text \<open>An event whose message, if it has one, is free of markup.\<close>

fun event_markup_free :: "alert_event \<Rightarrow> bool" where
  "event_markup_free (ShowAlert type message) = markup_free message"
| "event_markup_free (CloseClick r) = True"
| "event_markup_free (TimerFires r) = True"

section \<open>The forms\<close>

text \<open>
  Each submit listener keeps the flag \<open>isValid\<close> and runs one block per field. The two
  statement patterns of the blocks: \<open>showError(x, msg); isValid = false;\<close> and
  \<open>showSuccess(x);\<close>.
\<close>

definition fail_with ::
  "node \<Rightarrow> jsstring \<Rightarrow> bool \<times> document \<Rightarrow> (bool \<times> document) result" where
  "fail_with input message = (\<lambda>(isValid, d).
     and_then (showError input message d) (\<lambda>d'. Done (False, d')))"

definition pass :: "node \<Rightarrow> bool \<times> document \<Rightarrow> (bool \<times> document) result" where
  "pass input = (\<lambda>(isValid, d).
     and_then (showSuccess input d) (\<lambda>d'. Done (isValid, d')))"

text \<open>\<open>form.reset()\<close>: every control the form lists gets its default value back.\<close>

definition form_reset :: "node \<Rightarrow> document \<Rightarrow> document" where
  "form_reset form d =
     fold (\<lambda>n. update_element n (\<lambda>el. el\<lparr>el_value := defaultValue el\<rparr>)) (form_listed d form) d"

text \<open>\<open>inputs.forEach(input => clearValidation(input))\<close>; a throw ends the loop.\<close>

fun clear_each :: "node list \<Rightarrow> document \<Rightarrow> document result" where
  "clear_each [] d = Done d"
| "clear_each (input # inputs) d = and_then (clearValidation input d) (clear_each inputs)"

subsection \<open>Contact form\<close>

text \<open>The contact form tests each field for presence (\<open>name && ...\<close>) and skips an absent one.\<close>

definition contact_validate_name ::
  "node option \<Rightarrow> bool \<times> document \<Rightarrow> (bool \<times> document) result" where
  "contact_validate_name name = (\<lambda>(isValid, d).
     case name of
       None \<Rightarrow> Done (isValid, d)
     | Some n \<Rightarrow>
         if trim (value_of d n) = [] then fail_with n (utf16 ''Name is required'') (isValid, d)
         else pass n (isValid, d))"

definition contact_validate_email ::
  "node option \<Rightarrow> bool \<times> document \<Rightarrow> (bool \<times> document) result" where
  "contact_validate_email email = (\<lambda>(isValid, d).
     case email of
       None \<Rightarrow> Done (isValid, d)
     | Some n \<Rightarrow>
         if trim (value_of d n) = [] then fail_with n (utf16 ''Email is required'') (isValid, d)
         else if \<not> validateEmail (value_of d n)
           then fail_with n (utf16 ''Please enter a valid email'') (isValid, d)
         else pass n (isValid, d))"

definition contact_validate_subject ::
  "node option \<Rightarrow> bool \<times> document \<Rightarrow> (bool \<times> document) result" where
  "contact_validate_subject subject = (\<lambda>(isValid, d).
     case subject of
       None \<Rightarrow> Done (isValid, d)
     | Some n \<Rightarrow>
         if value_of d n = [] then fail_with n (utf16 ''Please select a subject'') (isValid, d)
         else pass n (isValid, d))"

definition contact_validate_message ::
  "node option \<Rightarrow> bool \<times> document \<Rightarrow> (bool \<times> document) result" where
  "contact_validate_message message = (\<lambda>(isValid, d).
     case message of
       None \<Rightarrow> Done (isValid, d)
     | Some n \<Rightarrow>
         if trim (value_of d n) = [] then fail_with n (utf16 ''Message is required'') (isValid, d)
         else if length (trim (value_of d n)) < 10
           then fail_with n (utf16 ''Message must be at least 10 characters'') (isValid, d)
         else pass n (isValid, d))"

text \<open>The submit listener of the contact form; \<open>contactForm\<close> is the form's node.\<close>

definition contactForm_submit :: "node \<Rightarrow> document \<Rightarrow> document result" where
  "contactForm_submit contactForm d =
     (let name = getElementById d ''name'';
          email = getElementById d ''email'';
          subject = getElementById d ''subject'';
          message = getElementById d ''message''
      in and_then (contact_validate_name name (True, d)) (\<lambda>s1.
         and_then (contact_validate_email email s1) (\<lambda>s2.
         and_then (contact_validate_subject subject s2) (\<lambda>s3.
         and_then (contact_validate_message message s3) (\<lambda>(isValid, d4).
           if isValid then
             (let d5 = showAlert ''success''
                         (utf16 ''Thank you! Your message has been sent successfully.'') d4;
                  d6 = form_reset contactForm d5
              in clear_each (form_inputs d6 contactForm) d6)
           else Done d4)))))"

text \<open>\<open>initContactForm\<close> registers the listener when the form exists.\<close>

definition initContactForm :: "document \<Rightarrow> (document \<Rightarrow> document result) option" where
  "initContactForm d = map_option contactForm_submit (getElementById d ''contactForm'')"

subsection \<open>Login form\<close>

text \<open>
  The login and signup listeners read \<open>.value\<close> of each field without a presence test:
  an absent field throws there.
\<close>

definition login_validate_email ::
  "node option \<Rightarrow> bool \<times> document \<Rightarrow> (bool \<times> document) result" where
  "login_validate_email email = (\<lambda>(isValid, d).
     case email of
       None \<Rightarrow> Thrown TypeError d
     | Some n \<Rightarrow>
         if trim (value_of d n) = [] then fail_with n (utf16 ''Email is required'') (isValid, d)
         else if \<not> validateEmail (value_of d n)
           then fail_with n (utf16 ''Please enter a valid email'') (isValid, d)
         else pass n (isValid, d))"

definition login_validate_password ::
  "node option \<Rightarrow> bool \<times> document \<Rightarrow> (bool \<times> document) result" where
  "login_validate_password password = (\<lambda>(isValid, d).
     case password of
       None \<Rightarrow> Thrown TypeError d
     | Some n \<Rightarrow>
         if trim (value_of d n) = [] then fail_with n (utf16 ''Password is required'') (isValid, d)
         else pass n (isValid, d))"

definition loginForm_submit :: "node \<Rightarrow> document \<Rightarrow> document result" where
  "loginForm_submit loginForm d =
     (let email = getElementById d ''login-email'';
          password = getElementById d ''login-password''
      in and_then (login_validate_email email (True, d)) (\<lambda>s1.
         and_then (login_validate_password password s1) (\<lambda>(isValid, d2).
           if isValid then
             Done (showAlert ''info''
                     (utf16 ''Login functionality would be handled by your backend.'') d2)
           else Done d2)))"

definition initLoginForm :: "document \<Rightarrow> (document \<Rightarrow> document result) option" where
  "initLoginForm d = map_option loginForm_submit (getElementById d ''login-form'')"

subsection \<open>Signup form\<close>

definition signup_validate_name ::
  "node option \<Rightarrow> bool \<times> document \<Rightarrow> (bool \<times> document) result" where
  "signup_validate_name name = (\<lambda>(isValid, d).
     case name of
       None \<Rightarrow> Thrown TypeError d
     | Some n \<Rightarrow>
         if trim (value_of d n) = [] then fail_with n (utf16 ''Name is required'') (isValid, d)
         else pass n (isValid, d))"

definition signup_validate_email ::
  "node option \<Rightarrow> bool \<times> document \<Rightarrow> (bool \<times> document) result" where
  "signup_validate_email email = (\<lambda>(isValid, d).
     case email of
       None \<Rightarrow> Thrown TypeError d
     | Some n \<Rightarrow>
         if trim (value_of d n) = [] then fail_with n (utf16 ''Email is required'') (isValid, d)
         else if \<not> validateEmail (value_of d n)
           then fail_with n (utf16 ''Please enter a valid email'') (isValid, d)
         else pass n (isValid, d))"

definition signup_validate_password ::
  "node option \<Rightarrow> bool \<times> document \<Rightarrow> (bool \<times> document) result" where
  "signup_validate_password password = (\<lambda>(isValid, d).
     case password of
       None \<Rightarrow> Thrown TypeError d
     | Some n \<Rightarrow>
         if trim (value_of d n) = [] then fail_with n (utf16 ''Password is required'') (isValid, d)
         else if \<not> validatePassword (value_of d n)
           then fail_with n (utf16 ''Password must be at least 8 characters'') (isValid, d)
         else pass n (isValid, d))"

text \<open>
  The confirm block reads \<open>password.value\<close> again; the password block has run by then,
  so \<open>password\<close> is not \<open>null\<close> here and the branch for it is never taken.
\<close>

definition signup_validate_confirm ::
  "node option \<Rightarrow> node option \<Rightarrow> bool \<times> document \<Rightarrow> (bool \<times> document) result" where
  "signup_validate_confirm password confirm = (\<lambda>(isValid, d).
     case confirm of
       None \<Rightarrow> Thrown TypeError d
     | Some n \<Rightarrow>
         if trim (value_of d n) = []
           then fail_with n (utf16 ''Please confirm your password'') (isValid, d)
         else (case password of
                 None \<Rightarrow> Thrown TypeError d
               | Some p \<Rightarrow>
                   if value_of d p \<noteq> value_of d n
                     then fail_with n (utf16 ''Passwords do not match'') (isValid, d)
                   else pass n (isValid, d)))"

definition signupForm_submit :: "node \<Rightarrow> document \<Rightarrow> document result" where
  "signupForm_submit signupForm d =
     (let name = getElementById d ''signup-name'';
          email = getElementById d ''signup-email'';
          password = getElementById d ''signup-password'';
          confirm = getElementById d ''signup-confirm''
      in and_then (signup_validate_name name (True, d)) (\<lambda>s1.
         and_then (signup_validate_email email s1) (\<lambda>s2.
         and_then (signup_validate_password password s2) (\<lambda>s3.
         and_then (signup_validate_confirm password confirm s3) (\<lambda>(isValid, d4).
           if isValid then
             Done (form_reset signupForm
                     (showAlert ''success'' (utf16 ''Account created successfully!'') d4))
           else Done d4)))))"

definition initSignupForm :: "document \<Rightarrow> (document \<Rightarrow> document result) option" where
  "initSignupForm d = map_option signupForm_submit (getElementById d ''signup-form'')"

subsection \<open>Password strength indicator\<close>

definition updatePasswordStrength :: "jsstring \<Rightarrow> document \<Rightarrow> document" where
  "updatePasswordStrength password d =
     (case getElementById d ''password-strength-bar'' of
        None \<Rightarrow> d
      | Some strengthBar \<Rightarrow>
          (case getElementById d ''password-strength'' of
             None \<Rightarrow> d
           | Some strengthContainer \<Rightarrow>
               if length password = 0 then classList_remove strengthContainer ''show'' d
               else
                 (let d1 = classList_add strengthContainer ''show'' d;
                      d2 = set_className strengthBar ''password-strength-bar'' d1
                  in classList_add strengthBar (strength_class (strength password)) d2)))"

section \<open>Copy to clipboard\<close>

text \<open>
  What the platform answers is a parameter: whether \<open>navigator.clipboard\<close> exists,
  whether the context is secure, whether the promise of \<open>writeText\<close> resolves or rejects,
  and whether \<open>document.execCommand('copy')\<close> returns (with its boolean) or throws.
  The handlers of the promise run after the click handler has returned; nothing else
  of the script runs in between, so the click and its continuation are one step here.
\<close>

datatype promise_outcome = Resolves | Rejects

datatype exec_outcome = Returns bool | Throws

record platform =
  has_clipboard :: bool
  isSecureContext :: bool
  writeText :: "jsstring \<Rightarrow> promise_outcome"
  execCommand_copy :: exec_outcome

definition fallbackCopy :: "platform \<Rightarrow> jsstring \<Rightarrow> document \<Rightarrow> document" where
  "fallbackCopy env text d =
     (let d1 = d\<lparr>body_textareas := body_textareas d @ [text]\<rparr>;
          d2 = (case execCommand_copy env of
                  Returns ok \<Rightarrow> showAlert ''success'' (utf16 ''Copied to clipboard!'') d1
                | Throws \<Rightarrow> showAlert ''error'' (utf16 ''Failed to copy'') d1)
      in d2\<lparr>body_textareas := butlast (body_textareas d2)\<rparr>)"

text \<open>The click listener of a \<open>[data-copy]\<close> element; \<open>textToCopy\<close> is the attribute.\<close>

definition data_copy_click :: "platform \<Rightarrow> jsstring \<Rightarrow> document \<Rightarrow> document" where
  "data_copy_click env textToCopy d =
     (if has_clipboard env \<and> isSecureContext env then
        (case writeText env textToCopy of
           Resolves \<Rightarrow> showAlert ''success'' (utf16 ''Copied to clipboard!'') d
         | Rejects \<Rightarrow> fallbackCopy env textToCopy d)
      else fallbackCopy env textToCopy d)"

definition copyToClipboard :: "platform \<Rightarrow> jsstring \<Rightarrow> node \<Rightarrow> document \<Rightarrow> document" where
  "copyToClipboard env text button d =
     (if has_clipboard env \<and> isSecureContext env then
        (case writeText env text of
           Resolves \<Rightarrow>
             (let originalText = textContent (elements d button);
                  d1 = set_textContent button (utf16 ''Copied!'') d
              in d1\<lparr>label_timers := label_timers d1 @ [(button, originalText)]\<rparr>)
         | Rejects \<Rightarrow> fallbackCopy env text d)
      else fallbackCopy env text d)"

text \<open>The click listener of a \<open>Copy\<close> button of a key item.\<close>

definition key_copy_click :: "platform \<Rightarrow> node \<Rightarrow> document \<Rightarrow> document" where
  "key_copy_click env button d =
     (case closest_key_item d button of
        None \<Rightarrow> d
      | Some keyItem \<Rightarrow>
          (case key_value_in d keyItem of
             None \<Rightarrow> d
           | Some keyValue \<Rightarrow>
               copyToClipboard env (trim (textContent (elements d keyValue))) button d))"

section \<open>Pages\<close>

text \<open>
  The error-message element that the validation primitives reach from a field, and the
  layout that the properties of the submit listeners ask of a page: every field sits in
  a form group with an error-message element of its own, and the fields and their
  error-message elements are pairwise different nodes.
\<close>

definition error_element_of :: "document \<Rightarrow> node \<Rightarrow> node option" where
  "error_element_of d n =
     (case closest_form_group d n of None \<Rightarrow> None | Some g \<Rightarrow> error_message_in d g)"

definition fields_laid_out :: "document \<Rightarrow> node list \<Rightarrow> bool" where
  "fields_laid_out d ns \<longleftrightarrow>
     list_all (\<lambda>n. error_element_of d n \<noteq> None) ns \<and>
     distinct (map Some ns @ map (error_element_of d) ns)"

text \<open>
  What a block of a submit listener does to a field \<open>n\<close> whose error-message element
  is \<open>e\<close>: with a message the effect of \<open>showError\<close>, without one that of \<open>showSuccess\<close>.
\<close>

definition mark :: "node \<Rightarrow> node \<Rightarrow> jsstring option \<Rightarrow> document \<Rightarrow> document" where
  "mark n e r d =
     (case r of
        Some m \<Rightarrow>
          classList_add e ''show'' (set_textContent e m
            (classList_remove n ''success'' (classList_add n ''error'' d)))
      | None \<Rightarrow>
          classList_remove e ''show''
            (classList_add n ''success'' (classList_remove n ''error'' d)))"

text \<open>Two documents that differ in class lists and text contents only.\<close>

definition same_page :: "document \<Rightarrow> document \<Rightarrow> bool" where
  "same_page d d' \<longleftrightarrow>
     getElementById d' = getElementById d \<and>
     closest_form_group d' = closest_form_group d \<and>
     error_message_in d' = error_message_in d \<and>
     form_inputs d' = form_inputs d \<and>
     form_listed d' = form_listed d \<and>
     custom_alerts d' = custom_alerts d \<and>
     created d' = created d \<and>
     (\<forall>k. el_value (elements d' k) = el_value (elements d k)) \<and>
     (\<forall>k. defaultValue (elements d' k) = defaultValue (elements d k))"

text \<open>
  The message shown for a field: the text of its error-message element while that
  element carries the class \<open>show\<close>.
\<close>

definition shown_at :: "document \<Rightarrow> node \<Rightarrow> jsstring option" where
  "shown_at d e = (if has_class d e ''show'' then Some (textContent (elements d e)) else None)"

definition shown_message :: "document \<Rightarrow> node \<Rightarrow> jsstring option" where
  "shown_message d n =
     (case error_element_of d n of None \<Rightarrow> None | Some e \<Rightarrow> shown_at d e)"

text \<open>
  The message that a block shows for the value of its field, if any: that of the first
  test of the block that fails. The name and email blocks are the same in every form
  that has them.
\<close>

definition name_verdict :: "jsstring \<Rightarrow> jsstring option" where
  "name_verdict v = (if trim v = [] then Some (utf16 ''Name is required'') else None)"

definition email_verdict :: "jsstring \<Rightarrow> jsstring option" where
  "email_verdict v =
     (if trim v = [] then Some (utf16 ''Email is required'')
      else if \<not> validateEmail v then Some (utf16 ''Please enter a valid email'')
      else None)"

definition subject_verdict :: "jsstring \<Rightarrow> jsstring option" where
  "subject_verdict v = (if v = [] then Some (utf16 ''Please select a subject'') else None)"

definition message_verdict :: "jsstring \<Rightarrow> jsstring option" where
  "message_verdict v =
     (if trim v = [] then Some (utf16 ''Message is required'')
      else if length (trim v) < 10 then Some (utf16 ''Message must be at least 10 characters'')
      else None)"

definition login_password_verdict :: "jsstring \<Rightarrow> jsstring option" where
  "login_password_verdict v =
     (if trim v = [] then Some (utf16 ''Password is required'') else None)"

definition signup_password_verdict :: "jsstring \<Rightarrow> jsstring option" where
  "signup_password_verdict v =
     (if trim v = [] then Some (utf16 ''Password is required'')
      else if \<not> validatePassword v then Some (utf16 ''Password must be at least 8 characters'')
      else None)"

definition confirm_verdict :: "jsstring \<Rightarrow> jsstring \<Rightarrow> jsstring option" where
  "confirm_verdict p c =
     (if trim c = [] then Some (utf16 ''Please confirm your password'')
      else if p \<noteq> c then Some (utf16 ''Passwords do not match'')
      else None)"

subsection \<open>Example pages\<close>

definition blank :: element where
  "blank = \<lparr>classList = [], textContent = [], el_value = [], defaultValue = []\<rparr>"

definition control :: "jsstring \<Rightarrow> element" where
  "control v = blank\<lparr>el_value := v\<rparr>"

definition empty_page :: document where
  "empty_page =
     \<lparr>elements = (\<lambda>_. blank),
      getElementById = (\<lambda>_. None),
      closest_form_group = (\<lambda>_. None),
      error_message_in = (\<lambda>_. None),
      form_inputs = (\<lambda>_. []),
      form_listed = (\<lambda>_. []),
      closest_key_item = (\<lambda>_. None),
      key_value_in = (\<lambda>_. None),
      custom_alerts = [],
      created = 0,
      dismiss_timers = [],
      label_timers = [],
      body_textareas = []\<rparr>"

text \<open>
  A form (node 0) with four fields (nodes 1 to 4), each in its own form group (11 to
  14) with its error-message element (21 to 24); \<open>ids\<close> are the ids of the form and of
  the fields, \<open>vs\<close> the values typed into the fields.
\<close>

definition form_page :: "string list \<Rightarrow> jsstring list \<Rightarrow> document" where
  "form_page ids vs =
     empty_page
       \<lparr>elements := (\<lambda>n. if 1 \<le> n \<and> n \<le> length vs then control (vs ! (n - 1)) else blank),
        getElementById := map_of (zip ids [0, 1, 2, 3, 4, 5, 6]),
        closest_form_group := (\<lambda>n. if 1 \<le> n \<and> n \<le> 4 then Some (n + 10) else None),
        error_message_in := (\<lambda>g. if 11 \<le> g \<and> g \<le> 14 then Some (g + 10) else None),
        form_inputs := (\<lambda>f. if f = 0 then [1, 2, 3, 4] else []),
        form_listed := (\<lambda>f. if f = 0 then [1, 2, 3, 4] else [])\<rparr>"

definition contact_page :: "jsstring list \<Rightarrow> document" where
  "contact_page = form_page [''contactForm'', ''name'', ''email'', ''subject'', ''message'']"

definition login_page :: "jsstring list \<Rightarrow> document" where
  "login_page = form_page [''login-form'', ''login-email'', ''login-password'']"

definition signup_page :: "jsstring list \<Rightarrow> document" where
  "signup_page =
     form_page [''signup-form'', ''signup-name'', ''signup-email'', ''signup-password'',
       ''signup-confirm'', ''password-strength-bar'', ''password-strength'']"

text \<open>A key item (node 30) with its value (31) and its \<open>Copy\<close> button (32).\<close>

definition key_page :: "jsstring \<Rightarrow> document" where
  "key_page key =
     empty_page
       \<lparr>elements := (\<lambda>n. if n = 31 then blank\<lparr>textContent := key\<rparr> else blank),
        closest_key_item := (\<lambda>n. if n = 32 then Some 30 else None),
        key_value_in := (\<lambda>n. if n = 30 then Some 31 else None)\<rparr>"

definition rejecting_platform :: "exec_outcome \<Rightarrow> platform" where
  "rejecting_platform ex =
     \<lparr>has_clipboard = True, isSecureContext = True, writeText = (\<lambda>_. Rejects),
      execCommand_copy = ex\<rparr>"

section \<open>Properties of the regular expressions\<close>

lemma nullable_lang: "nullable r \<longleftrightarrow> [] \<in> lang r"
  by (induction r) (auto simp: conc_def intro: star.star_nil)

lemma cons_in_conc:
  "a # w \<in> conc A B \<longleftrightarrow>
     (\<exists>u v. w = u @ v \<and> a # u \<in> A \<and> v \<in> B) \<or> ([] \<in> A \<and> a # w \<in> B)"
  unfolding conc_def by (auto simp: Cons_eq_append_conv) 

lemma star_cons_split:
  assumes "x \<in> star A" and "x = a # w"
  shows "\<exists>u v. w = u @ v \<and> a # u \<in> A \<and> v \<in> star A"
  using assms
proof (induction rule: star.induct)
  case star_nil
  then show ?case by simp
next
  case (star_app u v)
  show ?case
  proof (cases u)
    case Nil
    with star_app show ?thesis by simp
  next
    case (Cons b u')
    with star_app.prems have "b = a" and "w = u' @ v" by simp_all
    with star_app.hyps(1,2) Cons show ?thesis by blast
  qed
qed

lemma cons_in_star:
  "a # w \<in> star A \<longleftrightarrow> (\<exists>u v. w = u @ v \<and> a # u \<in> A \<and> v \<in> star A)"
proof
  assume "a # w \<in> star A"
  then show "\<exists>u v. w = u @ v \<and> a # u \<in> A \<and> v \<in> star A"
    by (rule star_cons_split) simp
next
  assume "\<exists>u v. w = u @ v \<and> a # u \<in> A \<and> v \<in> star A"
  then obtain u v where "w = u @ v" "a # u \<in> A" "v \<in> star A" by blast
  then have "(a # u) @ v \<in> star A" by (intro star.star_app)
  with \<open>w = u @ v\<close> show "a # w \<in> star A" by simp
qed

lemma lang_deriv: "w \<in> lang (deriv a r) \<longleftrightarrow> a # w \<in> lang r"
proof (induction r arbitrary: w)
  case (Seq r s)
  then show ?case
    by (auto simp: cons_in_conc nullable_lang) (auto simp: conc_def)
next
  case (Star r)
  then show ?case
    by (auto simp: cons_in_star) (auto simp: conc_def)
qed auto

lemma matches_lang: "matches r w \<longleftrightarrow> w \<in> lang r"
  by (induction w arbitrary: r) (simp_all add: nullable_lang lang_deriv)

lemma star_Cls: "star (lang (Cls p)) = {w. \<forall>c\<in>set w. p c}"
proof (rule set_eqI, rule iffI)
  fix w assume "w \<in> star (lang (Cls p))"
  then show "w \<in> {w. \<forall>c\<in>set w. p c}"
    by (induction rule: star.induct) auto
next
  fix w assume "w \<in> {w. \<forall>c\<in>set w. p c}"
  then have "\<forall>c\<in>set w. p c" by simp
  then show "w \<in> star (lang (Cls p))"
  proof (induction w)
    case Nil
    show ?case by (rule star.star_nil)
  next
    case (Cons a w)
    then have "[a] \<in> lang (Cls p)" and "w \<in> star (lang (Cls p))" by simp_all
    then have "[a] @ w \<in> star (lang (Cls p))" by (rule star.star_app)
    then show ?case by simp
  qed
qed

lemma in_conc_Cls:
  "w \<in> conc (lang (Cls p)) B \<longleftrightarrow> (\<exists>a v. w = a # v \<and> p a \<and> v \<in> B)"
proof
  assume "w \<in> conc (lang (Cls p)) B"
  then obtain u v where "w = u @ v" "u \<in> lang (Cls p)" "v \<in> B"
    unfolding conc_def by blast
  then show "\<exists>a v. w = a # v \<and> p a \<and> v \<in> B" by auto
next
  assume "\<exists>a v. w = a # v \<and> p a \<and> v \<in> B"
  then obtain a v where "w = [a] @ v" "[a] \<in> lang (Cls p)" "v \<in> B" by auto
  then show "w \<in> conc (lang (Cls p)) B"
    unfolding conc_def by blast
qed

lemma lang_Many1_Cls: "lang (Many1 (Cls p)) = {w. w \<noteq> [] \<and> (\<forall>c\<in>set w. p c)}"
proof (rule set_eqI)
  fix w
  have "w \<in> lang (Many1 (Cls p)) \<longleftrightarrow> (\<exists>a v. w = a # v \<and> p a \<and> (\<forall>c\<in>set v. p c))"
    unfolding Many1_def lang.simps(5) in_conc_Cls lang.simps(6) star_Cls by simp
  also have "\<dots> \<longleftrightarrow> w \<noteq> [] \<and> (\<forall>c\<in>set w. p c)"
    by (cases w) auto
  finally show "w \<in> lang (Many1 (Cls p)) \<longleftrightarrow> w \<in> {w. w \<noteq> [] \<and> (\<forall>c\<in>set w. p c)}"
    by simp
qed

lemma in_conc_all: "w \<in> conc UNIV B \<longleftrightarrow> (\<exists>u v. w = u @ v \<and> v \<in> B)"
  unfolding conc_def by auto

lemma re_search_Cls: "re_search (Cls p) s \<longleftrightarrow> (\<exists>c\<in>set s. p c)"
proof -
  have all: "star (lang any_unit) = UNIV"
    unfolding any_unit_def star_Cls by simp
  have "re_search (Cls p) s \<longleftrightarrow> (\<exists>u a v. s = u @ a # v \<and> p a)"
    unfolding re_search_def matches_lang lang.simps(5) lang.simps(6) all
      in_conc_all in_conc_Cls
    by auto
  also have "\<dots> \<longleftrightarrow> (\<exists>c\<in>set s. p c)"
    by (metis in_set_conv_decomp)
  finally show ?thesis .
qed

lemma validateEmail_iff:
  "validateEmail s \<longleftrightarrow>
     (\<exists>u v w. s = u @ commercial_at # v @ full_stop # w \<and>
        u \<noteq> [] \<and> v \<noteq> [] \<and> w \<noteq> [] \<and>
        (\<forall>c\<in>set (u @ v @ w). not_space_or_at c))"
  unfolding validateEmail_def re_test_anchored_def matches_lang email_re_def
    lang.simps(5) lang_Many1_Cls
  by (auto simp: conc_def) blast+

lemma at_not_space: "\<not> is_white_space commercial_at" "full_stop \<noteq> commercial_at" "\<not> is_white_space full_stop"
  by (simp_all add: is_white_space_def commercial_at_def full_stop_def)

lemma validateEmail_shape:
  assumes "validateEmail s"
  obtains u v w where "s = u @ commercial_at # v @ full_stop # w"
    and "commercial_at \<notin> set u" and "commercial_at \<notin> set (v @ full_stop # w)"
    and "u \<noteq> []" and "\<forall>c\<in>set s. \<not> is_white_space c"
proof -
  from assms obtain u v w where s: "s = u @ commercial_at # v @ full_stop # w"
    and ne: "u \<noteq> []" and cl: "\<forall>c\<in>set (u @ v @ w). not_space_or_at c"
    unfolding validateEmail_iff by blast
  from cl have "commercial_at \<notin> set u" "commercial_at \<notin> set (v @ full_stop # w)"
    using at_not_space(2) by (auto simp: not_space_or_at_def)
  moreover from cl s have "\<forall>c\<in>set s. \<not> is_white_space c"
    using at_not_space(1,3) by (auto simp: not_space_or_at_def)
  ultimately show thesis using s ne that by blast
qed

text \<open>
  Claim C2. A string that contains no \<open>@\<close>, or that has an \<open>@\<close> with no \<open>.\<close> anywhere
  after it, is rejected by \<open>validateEmail\<close>.
\<close>

theorem validateEmail_needs_at_and_dot:
  "commercial_at \<notin> set s \<or> (\<exists>u v. s = u @ commercial_at # v \<and> full_stop \<notin> set v)
     \<Longrightarrow> \<not> validateEmail s"
proof
  assume hyp: "commercial_at \<notin> set s \<or> (\<exists>u v. s = u @ commercial_at # v \<and> full_stop \<notin> set v)"
  assume "validateEmail s"
  then obtain u' v' w' where s: "s = u' @ commercial_at # v' @ full_stop # w'"
    and u': "commercial_at \<notin> set u'" and r': "commercial_at \<notin> set (v' @ full_stop # w')"
    by (rule validateEmail_shape)
  from hyp show False
  proof
    assume "commercial_at \<notin> set s"
    with s show False by simp
  next
    assume "\<exists>u v. s = u @ commercial_at # v \<and> full_stop \<notin> set v"
    then obtain u v where uv: "s = u @ commercial_at # v" and nodot: "full_stop \<notin> set v"
      by blast
    from s uv have "u' @ commercial_at # (v' @ full_stop # w') = u @ commercial_at # v"
      by simp
    with u' r' have "v = v' @ full_stop # w'"
      by (simp add: append_Cons_eq_iff)
    with nodot show False by simp
  qed
qed

theorem validateEmail_needs_at_and_dot_witness:
  "commercial_at \<notin> set (utf16 ''jane.x.com'') \<and> \<not> validateEmail (utf16 ''jane.x.com'') \<and>
   (\<exists>u v. utf16 ''jane@xcom'' = u @ commercial_at # v \<and> full_stop \<notin> set v) \<and>
   \<not> validateEmail (utf16 ''jane@xcom'')"
proof -
  have a: "commercial_at \<notin> set (utf16 ''jane.x.com'')"
    by (simp add: utf16_def commercial_at_def)
  have "utf16 ''jane@xcom'' = utf16 ''jane'' @ commercial_at # utf16 ''xcom'' \<and>
        full_stop \<notin> set (utf16 ''xcom'')"
    by (simp add: utf16_def commercial_at_def full_stop_def)
  then have b: "\<exists>u v. utf16 ''jane@xcom'' = u @ commercial_at # v \<and> full_stop \<notin> set v"
    by blast
  from a b show ?thesis
    using validateEmail_needs_at_and_dot [of "utf16 ''jane.x.com''"]
      validateEmail_needs_at_and_dot [of "utf16 ''jane@xcom''"]
    by blast
qed

section \<open>Properties of the password strength\<close>

lemma strength_sum:
  "strength p =
     (if 8 \<le> length p then 1 else 0) +
     (if (\<exists>c\<in>set p. is_lower c) \<and> (\<exists>c\<in>set p. is_upper c) then 1 else 0) +
     (if \<exists>c\<in>set p. is_digit c then 1 else 0) +
     (if \<exists>c\<in>set p. is_other c then 1 else 0)"
  by (simp add: strength_def re_search_Cls)

lemma strength_examples:
  "strength (utf16 ''aaaaaaaa'') = 1" "strength (utf16 ''Aaaaaaaa1'') = 3" "strength (utf16 ''Aaaaaaaa1!'') = 4"
  by (simp_all add: strength_sum utf16_def is_lower_def is_upper_def is_digit_def is_other_def)

lemma bar_class:
  assumes "getElementById d ''password-strength-bar'' = Some b"
    and "getElementById d ''password-strength'' = Some c" and "p \<noteq> []"
  shows "classList (elements (updatePasswordStrength p d) b) =
           [''password-strength-bar'', strength_class (strength p)]"
  using assms
  by (simp add: updatePasswordStrength_def classList_add_def set_className_def
      update_element_def token_add_def strength_class_def)

text \<open>
  Claim C3. The score is the number of the four tests that hold: length at least 8,
  a lowercase together with an uppercase letter, a digit, a code unit outside
  \<open>a-z\<close>, \<open>A-Z\<close>, \<open>0-9\<close>. It is at most 4. For a non-empty password the strength bar
  gets the class for weak at scores 0 and 1, for medium at 2 and 3, for strong at 4.
  Between two passwords of length at least 8, one that has every character class the
  other has scores at least as much. The three example passwords are weak, medium and
  strong.
\<close>

theorem password_strength:
  "strength p =
     (if 8 \<le> length p then 1 else 0) +
     (if (\<exists>c\<in>set p. is_lower c) \<and> (\<exists>c\<in>set p. is_upper c) then 1 else 0) +
     (if \<exists>c\<in>set p. is_digit c then 1 else 0) +
     (if \<exists>c\<in>set p. is_other c then 1 else 0) \<and>
   strength p \<le> 4 \<and>
   (getElementById d ''password-strength-bar'' = Some bar \<and>
    getElementById d ''password-strength'' = Some container \<and> p \<noteq> [] \<longrightarrow>
      classList (elements (updatePasswordStrength p d) bar) =
        [''password-strength-bar'',
         if strength p \<le> 1 then ''strength-weak''
         else if strength p \<le> 3 then ''strength-medium''
         else ''strength-strong'']) \<and>
   (8 \<le> length p \<and> 8 \<le> length q \<and>
    ((\<exists>c\<in>set p. is_lower c) \<longrightarrow> (\<exists>c\<in>set q. is_lower c)) \<and>
    ((\<exists>c\<in>set p. is_upper c) \<longrightarrow> (\<exists>c\<in>set q. is_upper c)) \<and>
    ((\<exists>c\<in>set p. is_digit c) \<longrightarrow> (\<exists>c\<in>set q. is_digit c)) \<and>
    ((\<exists>c\<in>set p. is_other c) \<longrightarrow> (\<exists>c\<in>set q. is_other c)) \<longrightarrow>
      strength p \<le> strength q) \<and>
   strength_class (strength (utf16 ''aaaaaaaa'')) = ''strength-weak'' \<and>
   strength_class (strength (utf16 ''Aaaaaaaa1'')) = ''strength-medium'' \<and>
   strength_class (strength (utf16 ''Aaaaaaaa1!'')) = ''strength-strong''"
proof (intro conjI)
  show "strength p \<le> 4" by (simp add: strength_sum)
  show "getElementById d ''password-strength-bar'' = Some bar \<and>
    getElementById d ''password-strength'' = Some container \<and> p \<noteq> [] \<longrightarrow>
      classList (elements (updatePasswordStrength p d) bar) =
        [''password-strength-bar'',
         if strength p \<le> 1 then ''strength-weak''
         else if strength p \<le> 3 then ''strength-medium''
         else ''strength-strong'']"
    using bar_class [of d bar container p] by (simp add: strength_class_def)
  show "8 \<le> length p \<and> 8 \<le> length q \<and>
    ((\<exists>c\<in>set p. is_lower c) \<longrightarrow> (\<exists>c\<in>set q. is_lower c)) \<and>
    ((\<exists>c\<in>set p. is_upper c) \<longrightarrow> (\<exists>c\<in>set q. is_upper c)) \<and>
    ((\<exists>c\<in>set p. is_digit c) \<longrightarrow> (\<exists>c\<in>set q. is_digit c)) \<and>
    ((\<exists>c\<in>set p. is_other c) \<longrightarrow> (\<exists>c\<in>set q. is_other c)) \<longrightarrow>
      strength p \<le> strength q"
    unfolding strength_sum [of p] strength_sum [of q] by auto
qed (simp_all add: strength_sum [of p] strength_examples strength_class_def)

theorem password_strength_witness:
  "getElementById (signup_page []) ''password-strength-bar'' = Some 5 \<and>
   getElementById (signup_page []) ''password-strength'' = Some 6 \<and>
   utf16 ''aaaaaaaa'' \<noteq> [] \<and>
   classList (elements (updatePasswordStrength (utf16 ''aaaaaaaa'') (signup_page [])) 5) =
     [''password-strength-bar'', ''strength-weak''] \<and>
   8 \<le> length (utf16 ''aaaaaaaa'') \<and> 8 \<le> length (utf16 ''Aaaaaaaa1'') \<and>
   \<not> (\<exists>c\<in>set (utf16 ''aaaaaaaa''). is_upper c) \<and>
   (\<exists>c\<in>set (utf16 ''Aaaaaaaa1''). is_lower c) \<and>
   \<not> (\<exists>c\<in>set (utf16 ''aaaaaaaa''). is_digit c) \<and>
   \<not> (\<exists>c\<in>set (utf16 ''aaaaaaaa''). is_other c) \<and>
   strength (utf16 ''aaaaaaaa'') \<le> strength (utf16 ''Aaaaaaaa1'')"
proof -
  have ids: "getElementById (signup_page []) ''password-strength-bar'' = Some 5"
    "getElementById (signup_page []) ''password-strength'' = Some 6"
    by (simp_all add: signup_page_def form_page_def empty_page_def)
  have cls: "\<not> (\<exists>c\<in>set (utf16 ''aaaaaaaa''). is_upper c)"
    "\<exists>c\<in>set (utf16 ''Aaaaaaaa1''). is_lower c"
    "\<not> (\<exists>c\<in>set (utf16 ''aaaaaaaa''). is_digit c)"
    "\<not> (\<exists>c\<in>set (utf16 ''aaaaaaaa''). is_other c)"
    by (simp_all add: utf16_def is_lower_def is_upper_def is_digit_def is_other_def)
  have len: "utf16 ''aaaaaaaa'' \<noteq> []" "8 \<le> length (utf16 ''aaaaaaaa'')"
    "8 \<le> length (utf16 ''Aaaaaaaa1'')"
    by (simp_all add: utf16_def)
  have one: "strength (utf16 ''aaaaaaaa'') = 1"
    by (rule strength_examples)
  from ids cls len one show ?thesis
    using password_strength [of "utf16 ''aaaaaaaa''" "signup_page []" 5 6 "utf16 ''Aaaaaaaa1''"]
    by simp
qed

section \<open>Properties of the validation primitives\<close>

lemma set_token_add: "set (token_add c cs) = insert c (set cs)"
  by (auto simp: token_add_def)

lemma set_token_remove: "set (token_remove c cs) = set cs - {c}"
  by (simp add: token_remove_def)

lemma has_class_update:
  "has_class (update_element k f d) n c \<longleftrightarrow>
     (if n = k then c \<in> set (classList (f (elements d n))) else has_class d n c)"
  by (simp add: has_class_def update_element_def)

lemma has_class_classList_add:
  "has_class (classList_add k c' d) n c \<longleftrightarrow> (n = k \<and> c = c') \<or> has_class d n c"
  by (auto simp: classList_add_def has_class_def update_element_def set_token_add)

lemma has_class_classList_remove:
  "has_class (classList_remove k c' d) n c \<longleftrightarrow> \<not> (n = k \<and> c = c') \<and> has_class d n c"
  by (auto simp: classList_remove_def has_class_def update_element_def set_token_remove)

lemma has_class_set_textContent:
  "has_class (set_textContent k t d) n c \<longleftrightarrow> has_class d n c"
  by (simp add: set_textContent_def has_class_def update_element_def)

lemmas has_class_simps =
  has_class_classList_add has_class_classList_remove has_class_set_textContent

text \<open>
  Claim C10. Without a form group around the input, each of the three primitives throws
  a \<open>TypeError\<close> and leaves the document as it was. With a form group that holds no
  error-message element, each returns, having changed the classes of the input only.
\<close>

theorem primitives_need_form_group:
  "(closest_form_group d input = None \<longrightarrow>
      showError input message d = Thrown TypeError d \<and>
      showSuccess input d = Thrown TypeError d \<and>
      clearValidation input d = Thrown TypeError d) \<and>
   (closest_form_group d input = Some formGroup \<and> error_message_in d formGroup = None \<longrightarrow>
      showError input message d =
        Done (classList_remove input ''success'' (classList_add input ''error'' d)) \<and>
      showSuccess input d =
        Done (classList_add input ''success'' (classList_remove input ''error'' d)) \<and>
      clearValidation input d =
        Done (classList_remove input ''success'' (classList_remove input ''error'' d)))"
  by (simp add: showError_def showSuccess_def clearValidation_def)

theorem primitives_need_form_group_witness:
  "closest_form_group (contact_page []) 7 = None \<and>
   showError 7 (utf16 ''Name is required'') (contact_page []) =
     Thrown TypeError (contact_page []) \<and>
   showSuccess 7 (contact_page []) = Thrown TypeError (contact_page []) \<and>
   clearValidation 7 (contact_page []) = Thrown TypeError (contact_page []) \<and>
   closest_form_group ((contact_page [])\<lparr>error_message_in := (\<lambda>_. None)\<rparr>) 1 = Some 11 \<and>
   error_message_in ((contact_page [])\<lparr>error_message_in := (\<lambda>_. None)\<rparr>) 11 = None \<and>
   returned (showError 1 (utf16 ''Name is required'')
     ((contact_page [])\<lparr>error_message_in := (\<lambda>_. None)\<rparr>)) \<and>
   returned (showSuccess 1 ((contact_page [])\<lparr>error_message_in := (\<lambda>_. None)\<rparr>)) \<and>
   returned (clearValidation 1 ((contact_page [])\<lparr>error_message_in := (\<lambda>_. None)\<rparr>))"
proof -
  have a: "closest_form_group (contact_page []) 7 = None"
    by (simp add: contact_page_def form_page_def empty_page_def)
  have b: "closest_form_group ((contact_page [])\<lparr>error_message_in := (\<lambda>_. None)\<rparr>) 1 = Some 11"
    "error_message_in ((contact_page [])\<lparr>error_message_in := (\<lambda>_. None)\<rparr>) 11 = None"
    by (simp_all add: contact_page_def form_page_def empty_page_def)
  from a b show ?thesis
    using primitives_need_form_group
        [of "contact_page []" 7 "utf16 ''Name is required''" 11]
      primitives_need_form_group
        [of "(contact_page [])\<lparr>error_message_in := (\<lambda>_. None)\<rparr>" 1
          "utf16 ''Name is required''" 11]
    by simp
qed

lemma both_after_call:
  "has_class (document_after (run_call c d)) n ''error'' \<and>
   has_class (document_after (run_call c d)) n ''success''
   \<Longrightarrow> has_class d n ''error'' \<and> has_class d n ''success''"
  by (cases c)
    (auto simp: showError_def showSuccess_def clearValidation_def Let_def has_class_simps
      split: option.splits)

lemma both_after_calls:
  "has_class (run_calls cs d) n ''error'' \<and> has_class (run_calls cs d) n ''success''
   \<Longrightarrow> has_class d n ''error'' \<and> has_class d n ''success''"
proof (induction cs arbitrary: d)
  case Nil
  then show ?case by simp
next
  case (Cons c cs)
  from Cons.prems have "has_class (run_calls cs (document_after (run_call c d))) n ''error'' \<and>
    has_class (run_calls cs (document_after (run_call c d))) n ''success''"
    by simp
  then have "has_class (document_after (run_call c d)) n ''error'' \<and>
    has_class (document_after (run_call c d)) n ''success''"
    by (rule Cons.IH)
  then show ?case by (rule both_after_call)
qed

lemma one_state_iff:
  "length (visual_states d n) = 1 \<longleftrightarrow> \<not> (has_class d n ''error'' \<and> has_class d n ''success'')"
  by (simp add: visual_states_def)

text \<open>
  Claim C5. A field that is in exactly one of the states error, success and neutral is
  in exactly one of them after any sequence of calls of \<open>showError\<close>, \<open>showSuccess\<close> and
  \<open>clearValidation\<close> on any fields: it never carries both classes.
\<close>

theorem one_visual_state:
  "length (visual_states d n) = 1 \<Longrightarrow>
     length (visual_states (run_calls cs d) n) = 1 \<and>
     \<not> (has_class (run_calls cs d) n ''error'' \<and> has_class (run_calls cs d) n ''success'')"
  unfolding one_state_iff using both_after_calls [of cs d n] by blast

theorem one_visual_state_witness:
  "length (visual_states (contact_page []) 1) = 1 \<and>
   length (visual_states
     (run_calls [ShowSuccess 1, ShowError 2 (utf16 ''Email is required''),
        ShowError 1 (utf16 ''Name is required''), ClearValidation 2, ShowSuccess 7]
       (contact_page [])) 1) = 1 \<and>
   visual_states
     (run_calls [ShowSuccess 1, ShowError 2 (utf16 ''Email is required''),
        ShowError 1 (utf16 ''Name is required''), ClearValidation 2, ShowSuccess 7]
       (contact_page [])) 1 = [Error]"
proof -
  have a: "length (visual_states (contact_page []) 1) = 1"
    by (simp add: visual_states_def has_class_def contact_page_def form_page_def
        empty_page_def blank_def)
  have b: "visual_states
     (run_calls [ShowSuccess 1, ShowError 2 (utf16 ''Email is required''),
        ShowError 1 (utf16 ''Name is required''), ClearValidation 2, ShowSuccess 7]
       (contact_page [])) 1 = [Error]"
    by (simp add: visual_states_def has_class_def contact_page_def form_page_def
        empty_page_def blank_def showError_def showSuccess_def clearValidation_def
        classList_add_def classList_remove_def set_textContent_def update_element_def
        token_add_def token_remove_def)
  from a b show ?thesis
    using one_visual_state [of "contact_page []" 1
        "[ShowSuccess 1, ShowError 2 (utf16 ''Email is required''),
          ShowError 1 (utf16 ''Name is required''), ClearValidation 2, ShowSuccess 7]"]
    by simp
qed

section \<open>Properties of the alerts\<close>

lemma custom_alerts_showAlert:
  "custom_alerts (showAlert type message d) =
     [\<lparr>alert_ref = created d, alert_className = ''custom-alert alert-'' @ type,
       alert_message = message, alert_background = alert_style type\<rparr>]"
  by (simp add: showAlert_def)

lemma created_showAlert: "created (showAlert type message d) = Suc (created d)"
  by (simp add: showAlert_def)

lemma length_alerts_step:
  "length (custom_alerts (alert_step ev d)) \<le> max 1 (length (custom_alerts d))"
proof (cases ev)
  case (ShowAlert type message)
  then show ?thesis by (simp add: custom_alerts_showAlert)
next
  case (CloseClick r)
  have "length (filter (\<lambda>a. alert_ref a \<noteq> r) (custom_alerts d)) \<le> length (custom_alerts d)"
    by (rule length_filter_le)
  with CloseClick show ?thesis by (simp add: alert_remove_def le_max_iff_disj)
next
  case (TimerFires r)
  have "length (filter (\<lambda>a. alert_ref a \<noteq> r) (custom_alerts d)) \<le> length (custom_alerts d)"
    by (rule length_filter_le)
  with TimerFires show ?thesis by (simp add: alert_remove_def le_max_iff_disj)
qed

lemma length_alerts_run:
  "length (custom_alerts d) \<le> 1 \<Longrightarrow> length (custom_alerts (alert_run evs d)) \<le> 1"
proof (induction evs arbitrary: d)
  case Nil
  then show ?case by simp
next
  case (Cons ev evs)
  from Cons.prems length_alerts_step [of ev d]
  have "length (custom_alerts (alert_step ev d)) \<le> 1" by simp
  then show ?case using Cons.IH by simp
qed

lemma alert_run_append: "alert_run (evs @ evs') d = alert_run evs' (alert_run evs d)"
  by (induction evs arbitrary: d) simp_all

lemma script_alert_messages_markup_free: "list_all markup_free script_alert_messages"
  by (simp add: script_alert_messages_def markup_free_def less_than_sign_def utf16_def)

text \<open>
  Claim C6. For messages without markup, as all messages of the script are:
  \<open>showAlert\<close> empties the list of alerts before it adds the new one, so after a call
  the new alert is the only one, whatever was shown before. After any sequence of
  \<open>showAlert\<close> calls, clicks on close buttons and timers that ends with a \<open>showAlert\<close>
  call there is exactly one alert, and along any such sequence that starts with at most
  one alert there is at most one alert, after every event.
\<close>

theorem at_most_one_alert:
  assumes "markup_free message" and "list_all event_markup_free evs"
  shows "custom_alerts (showAlert type message d) =
       [\<lparr>alert_ref = created d, alert_className = ''custom-alert alert-'' @ type,
         alert_message = message, alert_background = alert_style type\<rparr>] \<and>
     length (custom_alerts (alert_run (evs @ [ShowAlert type message]) d)) = 1 \<and>
     (length (custom_alerts d) \<le> 1 \<longrightarrow> length (custom_alerts (alert_run evs d)) \<le> 1)"
  using length_alerts_run [of d evs]
  by (simp add: custom_alerts_showAlert alert_run_append)

theorem at_most_one_alert_witness:
  "markup_free (utf16 ''Failed to copy'') \<and>
   list_all event_markup_free
     [ShowAlert ''success'' (utf16 ''Copied to clipboard!''), TimerFires 0,
      ShowAlert ''info'' (utf16 ''Login functionality would be handled by your backend.'')] \<and>
   length (custom_alerts empty_page) \<le> 1 \<and>
   length (custom_alerts
     (alert_run
        [ShowAlert ''success'' (utf16 ''Copied to clipboard!''), TimerFires 0,
         ShowAlert ''info'' (utf16 ''Login functionality would be handled by your backend.'')]
        empty_page)) \<le> 1 \<and>
   length (custom_alerts
     (alert_run
        ([ShowAlert ''success'' (utf16 ''Copied to clipboard!''), TimerFires 0,
          ShowAlert ''info'' (utf16 ''Login functionality would be handled by your backend.'')]
         @ [ShowAlert ''error'' (utf16 ''Failed to copy'')])
        empty_page)) = 1 \<and>
   custom_alerts (showAlert ''error'' (utf16 ''Failed to copy'') empty_page) =
     [\<lparr>alert_ref = 0, alert_className = ''custom-alert alert-error'',
       alert_message = utf16 ''Failed to copy'', alert_background = Some ''#fee2e2''\<rparr>]"
proof -
  have m: "markup_free (utf16 ''Failed to copy'')"
    by (simp add: markup_free_def less_than_sign_def utf16_def)
  have evs: "list_all event_markup_free
     [ShowAlert ''success'' (utf16 ''Copied to clipboard!''), TimerFires 0,
      ShowAlert ''info'' (utf16 ''Login functionality would be handled by your backend.'')]"
    by (simp add: markup_free_def less_than_sign_def utf16_def)
  have start: "length (custom_alerts empty_page) \<le> 1" "created empty_page = 0"
    by (simp_all add: empty_page_def)
  from m evs start show ?thesis
    using at_most_one_alert [OF m evs, of "''error''" empty_page]
    by (simp add: alert_style_def)
qed

section \<open>Properties of the clipboard copy\<close>

lemma custom_alerts_fallbackCopy:
  "custom_alerts (fallbackCopy env text d) =
     (case execCommand_copy env of
        Returns ok \<Rightarrow> custom_alerts (showAlert ''success'' (utf16 ''Copied to clipboard!'') d)
      | Throws \<Rightarrow> custom_alerts (showAlert ''error'' (utf16 ''Failed to copy'') d))"
  by (simp add: fallbackCopy_def showAlert_def split: exec_outcome.split)

text \<open>
  Claim C7. When the clipboard exists, the context is secure and the promise of
  \<open>writeText\<close> rejects, both copy triggers (the \<open>data-copy\<close> elements and the \<open>Copy\<close>
  buttons of the key items) do what \<open>fallbackCopy\<close> does. \<open>fallbackCopy\<close> shows the
  error toast when \<open>execCommand\<close> throws and the success toast when it succeeds.
\<close>

theorem clipboard_rejection_falls_back:
  "(has_clipboard env \<and> isSecureContext env \<and> writeText env text = Rejects \<longrightarrow>
      data_copy_click env text d = fallbackCopy env text d \<and>
      copyToClipboard env text button d = fallbackCopy env text d) \<and>
   (has_clipboard env \<and> isSecureContext env \<and>
    closest_key_item d button = Some keyItem \<and> key_value_in d keyItem = Some keyValue \<and>
    writeText env (trim (textContent (elements d keyValue))) = Rejects \<longrightarrow>
      key_copy_click env button d =
        fallbackCopy env (trim (textContent (elements d keyValue))) d) \<and>
   (execCommand_copy env = Throws \<longrightarrow>
      custom_alerts (fallbackCopy env text d) =
        [\<lparr>alert_ref = created d, alert_className = ''custom-alert alert-error'',
          alert_message = utf16 ''Failed to copy'', alert_background = Some ''#fee2e2''\<rparr>]) \<and>
   (execCommand_copy env = Returns True \<longrightarrow>
      custom_alerts (fallbackCopy env text d) =
        [\<lparr>alert_ref = created d, alert_className = ''custom-alert alert-success'',
          alert_message = utf16 ''Copied to clipboard!'',
          alert_background = Some ''#dcfce7''\<rparr>])"
  by (simp add: data_copy_click_def copyToClipboard_def key_copy_click_def
      custom_alerts_fallbackCopy custom_alerts_showAlert alert_style_def)

theorem clipboard_rejection_falls_back_witness:
  "has_clipboard (rejecting_platform Throws) \<and> isSecureContext (rejecting_platform Throws) \<and>
   writeText (rejecting_platform Throws) (utf16 ''sk_live_abc123'') = Rejects \<and>
   closest_key_item (key_page (utf16 '' sk_live_abc123 '')) 32 = Some 30 \<and>
   key_value_in (key_page (utf16 '' sk_live_abc123 '')) 30 = Some 31 \<and>
   execCommand_copy (rejecting_platform Throws) = Throws \<and>
   execCommand_copy (rejecting_platform (Returns True)) = Returns True \<and>
   data_copy_click (rejecting_platform Throws) (utf16 ''sk_live_abc123'')
       (key_page (utf16 '' sk_live_abc123 '')) =
     fallbackCopy (rejecting_platform Throws) (utf16 ''sk_live_abc123'')
       (key_page (utf16 '' sk_live_abc123 '')) \<and>
   key_copy_click (rejecting_platform Throws) 32 (key_page (utf16 '' sk_live_abc123 '')) =
     fallbackCopy (rejecting_platform Throws) (utf16 ''sk_live_abc123'')
       (key_page (utf16 '' sk_live_abc123 '')) \<and>
   map alert_className (custom_alerts
     (fallbackCopy (rejecting_platform Throws) (utf16 ''sk_live_abc123'')
        (key_page (utf16 '' sk_live_abc123 '')))) = [''custom-alert alert-error''] \<and>
   map alert_className (custom_alerts
     (fallbackCopy (rejecting_platform (Returns True)) (utf16 ''sk_live_abc123'')
        (key_page (utf16 '' sk_live_abc123 '')))) = [''custom-alert alert-success'']"
proof -
  have env: "has_clipboard (rejecting_platform ex)" "isSecureContext (rejecting_platform ex)"
    "writeText (rejecting_platform ex) t = Rejects"
    "execCommand_copy (rejecting_platform ex) = ex" for ex t
    by (simp_all add: rejecting_platform_def)
  have page: "closest_key_item (key_page (utf16 '' sk_live_abc123 '')) 32 = Some 30"
    "key_value_in (key_page (utf16 '' sk_live_abc123 '')) 30 = Some 31"
    by (simp_all add: key_page_def empty_page_def)
  have key: "trim (textContent (elements (key_page (utf16 '' sk_live_abc123 '')) 31)) =
    utf16 ''sk_live_abc123''"
    by (simp add: key_page_def empty_page_def blank_def trim_def utf16_def is_white_space_def)
  have thrown: "data_copy_click (rejecting_platform Throws) (utf16 ''sk_live_abc123'')
       (key_page (utf16 '' sk_live_abc123 '')) =
     fallbackCopy (rejecting_platform Throws) (utf16 ''sk_live_abc123'')
       (key_page (utf16 '' sk_live_abc123 ''))"
    "key_copy_click (rejecting_platform Throws) 32 (key_page (utf16 '' sk_live_abc123 '')) =
     fallbackCopy (rejecting_platform Throws) (utf16 ''sk_live_abc123'')
       (key_page (utf16 '' sk_live_abc123 ''))"
    "map alert_className (custom_alerts
     (fallbackCopy (rejecting_platform Throws) (utf16 ''sk_live_abc123'')
        (key_page (utf16 '' sk_live_abc123 '')))) = [''custom-alert alert-error'']"
    using clipboard_rejection_falls_back
        [of "rejecting_platform Throws" "utf16 ''sk_live_abc123''"
          "key_page (utf16 '' sk_live_abc123 '')" 32 30 31]
    by (simp_all add: env page key)
  have succ: "map alert_className (custom_alerts
     (fallbackCopy (rejecting_platform (Returns True)) (utf16 ''sk_live_abc123'')
        (key_page (utf16 '' sk_live_abc123 '')))) = [''custom-alert alert-success'']"
    using clipboard_rejection_falls_back
        [of "rejecting_platform (Returns True)" "utf16 ''sk_live_abc123''"
          "key_page (utf16 '' sk_live_abc123 '')" 32 30 31]
    by (simp add: env)
  from thrown succ show ?thesis
    by (simp add: env page)
qed

section \<open>Properties of the submit listeners\<close>

subsection \<open>Documents that differ in classes and texts only\<close>

lemma same_page_refl: "same_page d d"
  by (simp add: same_page_def)

lemma same_page_trans: "same_page d d' \<Longrightarrow> same_page d' d'' \<Longrightarrow> same_page d d''"
  by (simp add: same_page_def)

lemma same_page_classes:
  "same_page d (classList_add n c d)" "same_page d (classList_remove n c d)"
  "same_page d (set_textContent n t d)"
  by (simp_all add: same_page_def classList_add_def classList_remove_def
      set_textContent_def update_element_def)

lemma same_page_mark: "same_page d (mark n e r d)"
  unfolding mark_def
  by (cases r) (simp_all add: same_page_def classList_add_def classList_remove_def
      set_textContent_def update_element_def)

lemma same_page_error_element: "same_page d d' \<Longrightarrow> error_element_of d' = error_element_of d"
  by (auto simp: same_page_def error_element_of_def fun_eq_iff split: option.splits)

lemma same_page_value: "same_page d d' \<Longrightarrow> value_of d' = value_of d"
  by (simp add: same_page_def value_of_def fun_eq_iff)

subsection \<open>One block of a listener\<close>

lemma showError_mark:
  "error_element_of d n = Some e \<Longrightarrow> showError n m d = Done (mark n e (Some m) d)"
  by (auto simp: error_element_of_def showError_def mark_def split: option.splits)

lemma showSuccess_mark:
  "error_element_of d n = Some e \<Longrightarrow> showSuccess n d = Done (mark n e None d)"
  by (auto simp: error_element_of_def showSuccess_def mark_def split: option.splits)

lemma fail_with_mark:
  "error_element_of d n = Some e \<Longrightarrow> fail_with n m (v, d) = Done (False, mark n e (Some m) d)"
  by (simp add: fail_with_def showError_mark)

lemma pass_mark:
  "error_element_of d n = Some e \<Longrightarrow> pass n (v, d) = Done (v, mark n e None d)"
  by (simp add: pass_def showSuccess_mark)

lemma elements_mark_other:
  "k \<noteq> n \<Longrightarrow> k \<noteq> e \<Longrightarrow> elements (mark n e r d) k = elements d k"
  unfolding mark_def
  by (cases r) (simp_all add: classList_add_def classList_remove_def
      set_textContent_def update_element_def)

lemma visual_states_cong:
  "elements d' n = elements d n \<Longrightarrow> visual_states d' n = visual_states d n"
  by (simp add: visual_states_def has_class_def)

lemma shown_at_cong: "elements d' e = elements d e \<Longrightarrow> shown_at d' e = shown_at d e"
  by (simp add: shown_at_def has_class_def)

lemma visual_states_mark:
  "n \<noteq> e \<Longrightarrow> visual_states (mark n e r d) n = (if r = None then [Success] else [Error])"
  unfolding mark_def visual_states_def
  by (cases r) (auto simp: has_class_simps)

lemma textContent_classes:
  "textContent (elements (classList_add n c d) k) = textContent (elements d k)"
  "textContent (elements (classList_remove n c d) k) = textContent (elements d k)"
  "textContent (elements (set_textContent n t d) k) =
     (if k = n then t else textContent (elements d k))"
  by (simp_all add: classList_add_def classList_remove_def set_textContent_def
      update_element_def)

lemma shown_at_mark: "shown_at (mark n e r d) e = r"
  unfolding mark_def shown_at_def
  by (cases r) (simp_all add: has_class_simps textContent_classes)

lemma visual_states_mark_other:
  "k \<noteq> n \<Longrightarrow> k \<noteq> e \<Longrightarrow> visual_states (mark n e r d) k = visual_states d k"
  by (rule visual_states_cong) (simp add: elements_mark_other)

lemma shown_at_mark_other:
  "k \<noteq> n \<Longrightarrow> k \<noteq> e \<Longrightarrow> shown_at (mark n e r d) k = shown_at d k"
  by (rule shown_at_cong) (simp add: elements_mark_other)

subsection \<open>Alert, reset and clearing\<close>

lemma showAlert_frame:
  "elements (showAlert type message d) = elements d"
  "getElementById (showAlert type message d) = getElementById d"
  "closest_form_group (showAlert type message d) = closest_form_group d"
  "error_message_in (showAlert type message d) = error_message_in d"
  "form_inputs (showAlert type message d) = form_inputs d"
  "form_listed (showAlert type message d) = form_listed d"
  by (simp_all add: showAlert_def)

lemma fold_update_element:
  assumes idem: "\<And>x. g (g x) = g x"
  shows "fold (\<lambda>n. update_element n g) ns d =
    d\<lparr>elements := (\<lambda>k. if k \<in> set ns then g (elements d k) else elements d k)\<rparr>"
proof (induction ns arbitrary: d)
  case Nil
  show ?case by simp
next
  case (Cons n ns)
  let ?d1 = "update_element n g d"
  have els: "elements ?d1 = (elements d)(n := g (elements d n))"
    by (simp add: update_element_def)
  have "fold (\<lambda>n. update_element n g) (n # ns) d = fold (\<lambda>n. update_element n g) ns ?d1"
    by simp
  also have "\<dots> = ?d1\<lparr>elements := (\<lambda>k. if k \<in> set ns then g (elements ?d1 k)
                                        else elements ?d1 k)\<rparr>"
    by (rule Cons.IH)
  also have "(\<lambda>k. if k \<in> set ns then g (elements ?d1 k) else elements ?d1 k) =
        (\<lambda>k. if k \<in> set (n # ns) then g (elements d k) else elements d k)"
    unfolding els by (rule ext) (simp add: idem)
  also have "?d1\<lparr>elements := (\<lambda>k. if k \<in> set (n # ns) then g (elements d k)
                                 else elements d k)\<rparr> =
      d\<lparr>elements := (\<lambda>k. if k \<in> set (n # ns) then g (elements d k) else elements d k)\<rparr>"
    by (simp add: update_element_def)
  finally show ?case .
qed

lemma form_reset_eq:
  "form_reset form d =
     d\<lparr>elements := (\<lambda>k. if k \<in> set (form_listed d form)
                          then (elements d k)\<lparr>el_value := defaultValue (elements d k)\<rparr>
                          else elements d k)\<rparr>"
  unfolding form_reset_def by (rule fold_update_element) simp

lemma clearValidation_props:
  assumes "closest_form_group d n \<noteq> None"
  shows "\<exists>d'. clearValidation n d = Done d' \<and> same_page d d' \<and>
    (\<forall>k c. has_class d' k c \<longrightarrow> has_class d k c) \<and>
    \<not> has_class d' n ''error'' \<and> \<not> has_class d' n ''success''"
proof -
  from assms obtain g where g: "closest_form_group d n = Some g" by blast
  let ?d1 = "classList_remove n ''success'' (classList_remove n ''error'' d)"
  have d1: "same_page d ?d1"
    by (rule same_page_trans [OF same_page_classes(2) same_page_classes(2)])
  show ?thesis
  proof (cases "error_message_in d g")
    case None
    with g have "clearValidation n d = Done ?d1"
      by (simp add: clearValidation_def)
    with d1 show ?thesis by (simp add: has_class_simps)
  next
    case (Some e)
    with g have "clearValidation n d = Done (classList_remove e ''show'' ?d1)"
      by (simp add: clearValidation_def)
    moreover have "same_page d (classList_remove e ''show'' ?d1)"
      by (rule same_page_trans [OF d1 same_page_classes(2)])
    ultimately show ?thesis by (simp add: has_class_simps)
  qed
qed

lemma clear_each_props:
  "list_all (\<lambda>n. closest_form_group d n \<noteq> None) ns \<Longrightarrow>
   \<exists>d'. clear_each ns d = Done d' \<and> same_page d d' \<and>
     (\<forall>k c. has_class d' k c \<longrightarrow> has_class d k c) \<and>
     (\<forall>n\<in>set ns. \<not> has_class d' n ''error'' \<and> \<not> has_class d' n ''success'')"
proof (induction ns arbitrary: d)
  case Nil
  then show ?case by (simp add: same_page_refl)
next
  case (Cons n ns)
  from Cons.prems have "closest_form_group d n \<noteq> None" by simp
  then obtain d1 where d1: "clearValidation n d = Done d1" "same_page d d1"
    "\<forall>k c. has_class d1 k c \<longrightarrow> has_class d k c"
    "\<not> has_class d1 n ''error''" "\<not> has_class d1 n ''success''"
    using clearValidation_props by blast
  from Cons.prems d1(2) have "list_all (\<lambda>n. closest_form_group d1 n \<noteq> None) ns"
    by (simp add: same_page_def)
  then obtain d2 where d2: "clear_each ns d1 = Done d2" "same_page d1 d2"
    "\<forall>k c. has_class d2 k c \<longrightarrow> has_class d1 k c"
    "\<forall>n\<in>set ns. \<not> has_class d2 n ''error'' \<and> \<not> has_class d2 n ''success''"
    using Cons.IH by blast
  have "clear_each (n # ns) d = Done d2"
    using d1(1) d2(1) by simp
  moreover have "same_page d d2"
    using d1(2) d2(2) by (rule same_page_trans)
  moreover have "\<forall>k c. has_class d2 k c \<longrightarrow> has_class d k c"
    using d1(3) d2(3) by blast
  moreover have "\<forall>m\<in>set (n # ns). \<not> has_class d2 m ''error'' \<and> \<not> has_class d2 m ''success''"
    using d1(4,5) d2(3,4) by auto
  ultimately show ?case by blast
qed

subsection \<open>Blocks in a row\<close>

lemma error_element_of_mark [simp]: "error_element_of (mark n e r d) = error_element_of d"
  by (rule same_page_error_element) (rule same_page_mark)

lemma value_of_mark [simp]: "value_of (mark n e r d) = value_of d"
  by (rule same_page_value) (rule same_page_mark)

lemma neutral_iff:
  "visual_states d n = [Neutral] \<longleftrightarrow> \<not> has_class d n ''error'' \<and> \<not> has_class d n ''success''"
  by (simp add: visual_states_def)

text \<open>Four blocks in a row on a laid-out form: each field shows the verdict of its block.\<close>

lemma four_marks:
  fixes d :: document and r1 r2 r3 r4 :: "jsstring option"
    and n1 n2 n3 n4 e1 e2 e3 e4 :: node
  assumes dist: "distinct [n1, n2, n3, n4, e1, e2, e3, e4]"
  defines "d4 \<equiv> mark n4 e4 r4 (mark n3 e3 r3 (mark n2 e2 r2 (mark n1 e1 r1 d)))"
  shows "same_page d d4"
    and "shown_at d4 e1 = r1" and "shown_at d4 e2 = r2"
    and "shown_at d4 e3 = r3" and "shown_at d4 e4 = r4"
    and "visual_states d4 n1 = (if r1 = None then [Success] else [Error])"
    and "visual_states d4 n2 = (if r2 = None then [Success] else [Error])"
    and "visual_states d4 n3 = (if r3 = None then [Success] else [Error])"
    and "visual_states d4 n4 = (if r4 = None then [Success] else [Error])"
proof -
  from dist have "distinct (rev [n1, n2, n3, n4, e1, e2, e3, e4])"
    by (simp only: distinct_rev)
  then have dist': "distinct [e4, e3, e2, e1, n4, n3, n2, n1]"
    by simp
  show "same_page d d4"
    unfolding d4_def
    by (intro same_page_trans [OF _ same_page_mark] same_page_mark)
  from dist dist' show "shown_at d4 e1 = r1" "shown_at d4 e2 = r2" "shown_at d4 e3 = r3"
    "shown_at d4 e4 = r4"
    unfolding d4_def by (simp_all add: shown_at_mark shown_at_mark_other)
  from dist dist' show "visual_states d4 n1 = (if r1 = None then [Success] else [Error])"
    "visual_states d4 n2 = (if r2 = None then [Success] else [Error])"
    "visual_states d4 n3 = (if r3 = None then [Success] else [Error])"
    "visual_states d4 n4 = (if r4 = None then [Success] else [Error])"
    unfolding d4_def by (simp_all add: visual_states_mark visual_states_mark_other)
qed

lemma two_marks:
  fixes d :: document and r1 r2 :: "jsstring option" and n1 n2 e1 e2 :: node
  assumes dist: "distinct [n1, n2, e1, e2]"
  defines "d2 \<equiv> mark n2 e2 r2 (mark n1 e1 r1 d)"
  shows "same_page d d2"
    and "shown_at d2 e1 = r1" and "shown_at d2 e2 = r2"
    and "visual_states d2 n1 = (if r1 = None then [Success] else [Error])"
    and "visual_states d2 n2 = (if r2 = None then [Success] else [Error])"
proof -
  from dist have "distinct (rev [n1, n2, e1, e2])"
    by (simp only: distinct_rev)
  then have dist': "distinct [e2, e1, n2, n1]"
    by simp
  show "same_page d d2"
    unfolding d2_def by (rule same_page_trans [OF same_page_mark same_page_mark])
  from dist dist' show "shown_at d2 e1 = r1" "shown_at d2 e2 = r2"
    unfolding d2_def by (simp_all add: shown_at_mark shown_at_mark_other)
  from dist dist' show "visual_states d2 n1 = (if r1 = None then [Success] else [Error])"
    "visual_states d2 n2 = (if r2 = None then [Success] else [Error])"
    unfolding d2_def by (simp_all add: visual_states_mark visual_states_mark_other)
qed

lemma laid_out4:
  assumes "fields_laid_out d [n1, n2, n3, n4]"
  obtains e1 e2 e3 e4 where "error_element_of d n1 = Some e1" "error_element_of d n2 = Some e2"
    "error_element_of d n3 = Some e3" "error_element_of d n4 = Some e4"
    "distinct [n1, n2, n3, n4, e1, e2, e3, e4]"
proof -
  from assms obtain e1 e2 e3 e4 where e: "error_element_of d n1 = Some e1"
    "error_element_of d n2 = Some e2" "error_element_of d n3 = Some e3"
    "error_element_of d n4 = Some e4"
    by (auto simp: fields_laid_out_def)
  with assms have "distinct [n1, n2, n3, n4, e1, e2, e3, e4]"
    by (simp add: fields_laid_out_def)
  with e show thesis by (rule that)
qed

lemma laid_out2:
  assumes "fields_laid_out d [n1, n2]"
  obtains e1 e2 where "error_element_of d n1 = Some e1" "error_element_of d n2 = Some e2"
    "distinct [n1, n2, e1, e2]"
proof -
  from assms obtain e1 e2 where e: "error_element_of d n1 = Some e1"
    "error_element_of d n2 = Some e2"
    by (auto simp: fields_laid_out_def)
  with assms have "distinct [n1, n2, e1, e2]"
    by (simp add: fields_laid_out_def)
  with e show thesis by (rule that)
qed

subsection \<open>The blocks of the three forms\<close>

lemma contact_blocks:
  assumes "error_element_of d n = Some e"
  shows "contact_validate_name (Some n) (v, d) =
      Done (v \<and> name_verdict (value_of d n) = None, mark n e (name_verdict (value_of d n)) d)"
    and "contact_validate_email (Some n) (v, d) =
      Done (v \<and> email_verdict (value_of d n) = None, mark n e (email_verdict (value_of d n)) d)"
    and "contact_validate_subject (Some n) (v, d) =
      Done (v \<and> subject_verdict (value_of d n) = None,
        mark n e (subject_verdict (value_of d n)) d)"
    and "contact_validate_message (Some n) (v, d) =
      Done (v \<and> message_verdict (value_of d n) = None,
        mark n e (message_verdict (value_of d n)) d)"
  using assms
  by (simp_all add: contact_validate_name_def contact_validate_email_def
      contact_validate_subject_def contact_validate_message_def name_verdict_def
      email_verdict_def subject_verdict_def message_verdict_def fail_with_mark pass_mark)

lemma login_blocks:
  assumes "error_element_of d n = Some e"
  shows "login_validate_email (Some n) (v, d) =
      Done (v \<and> email_verdict (value_of d n) = None, mark n e (email_verdict (value_of d n)) d)"
    and "login_validate_password (Some n) (v, d) =
      Done (v \<and> login_password_verdict (value_of d n) = None,
        mark n e (login_password_verdict (value_of d n)) d)"
  using assms
  by (simp_all add: login_validate_email_def login_validate_password_def email_verdict_def
      login_password_verdict_def fail_with_mark pass_mark)

lemma signup_blocks:
  assumes "error_element_of d n = Some e"
  shows "signup_validate_name (Some n) (v, d) =
      Done (v \<and> name_verdict (value_of d n) = None, mark n e (name_verdict (value_of d n)) d)"
    and "signup_validate_email (Some n) (v, d) =
      Done (v \<and> email_verdict (value_of d n) = None, mark n e (email_verdict (value_of d n)) d)"
    and "signup_validate_password (Some n) (v, d) =
      Done (v \<and> signup_password_verdict (value_of d n) = None,
        mark n e (signup_password_verdict (value_of d n)) d)"
    and "signup_validate_confirm (Some p) (Some n) (v, d) =
      Done (v \<and> confirm_verdict (value_of d p) (value_of d n) = None,
        mark n e (confirm_verdict (value_of d p) (value_of d n)) d)"
  using assms
  by (simp_all add: signup_validate_name_def signup_validate_email_def
      signup_validate_password_def signup_validate_confirm_def name_verdict_def
      email_verdict_def signup_password_verdict_def confirm_verdict_def fail_with_mark
      pass_mark)

text \<open>
  The blocks of a listener on a laid-out form: the document after them, \<open>d4\<close> (or \<open>d2\<close>),
  shows for every field the verdict of its block, and the flag holds when no block
  has a message.
\<close>

lemma contact_run:
  assumes ids: "getElementById d ''name'' = Some nm" "getElementById d ''email'' = Some em"
      "getElementById d ''subject'' = Some sb" "getElementById d ''message'' = Some ms"
    and layout: "fields_laid_out d [nm, em, sb, ms]"
  obtains d4 where
    "contactForm_submit form d =
       (if name_verdict (value_of d nm) = None \<and> email_verdict (value_of d em) = None \<and>
           subject_verdict (value_of d sb) = None \<and> message_verdict (value_of d ms) = None
        then (let d6 = form_reset form (showAlert ''success''
                (utf16 ''Thank you! Your message has been sent successfully.'') d4)
              in clear_each (form_inputs d6 form) d6)
        else Done d4)"
    and "same_page d d4"
    and "shown_message d4 nm = name_verdict (value_of d nm)"
    and "shown_message d4 em = email_verdict (value_of d em)"
    and "shown_message d4 sb = subject_verdict (value_of d sb)"
    and "shown_message d4 ms = message_verdict (value_of d ms)"
    and "\<forall>n\<in>set [nm, em, sb, ms].
           visual_states d4 n = (if shown_message d4 n = None then [Success] else [Error])"
proof -
  from layout obtain e1 e2 e3 e4 where e: "error_element_of d nm = Some e1"
      "error_element_of d em = Some e2" "error_element_of d sb = Some e3"
      "error_element_of d ms = Some e4"
    and dist: "distinct [nm, em, sb, ms, e1, e2, e3, e4]"
    by (rule laid_out4)
  define d4 where "d4 = mark ms e4 (message_verdict (value_of d ms))
    (mark sb e3 (subject_verdict (value_of d sb))
      (mark em e2 (email_verdict (value_of d em))
        (mark nm e1 (name_verdict (value_of d nm)) d)))"
  note four = four_marks [OF dist, where d = d and ?r1.0 = "name_verdict (value_of d nm)"
      and ?r2.0 = "email_verdict (value_of d em)" and ?r3.0 = "subject_verdict (value_of d sb)"
      and ?r4.0 = "message_verdict (value_of d ms)", folded d4_def]
  have run: "contactForm_submit form d =
       (if name_verdict (value_of d nm) = None \<and> email_verdict (value_of d em) = None \<and>
           subject_verdict (value_of d sb) = None \<and> message_verdict (value_of d ms) = None
        then (let d6 = form_reset form (showAlert ''success''
                (utf16 ''Thank you! Your message has been sent successfully.'') d4)
              in clear_each (form_inputs d6 form) d6)
        else Done d4)"
    unfolding contactForm_submit_def d4_def
    by (simp add: ids e Let_def contact_blocks(1) [where e = e1]
        contact_blocks(2) [where e = e2] contact_blocks(3) [where e = e3]
        contact_blocks(4) [where e = e4])
  have sm: "shown_message d4 nm = name_verdict (value_of d nm)"
    "shown_message d4 em = email_verdict (value_of d em)"
    "shown_message d4 sb = subject_verdict (value_of d sb)"
    "shown_message d4 ms = message_verdict (value_of d ms)"
    using e same_page_error_element [OF four(1)] four(2-5)
    by (simp_all add: shown_message_def)
  have "\<forall>n\<in>set [nm, em, sb, ms].
           visual_states d4 n = (if shown_message d4 n = None then [Success] else [Error])"
    using sm four(6-9) by simp
  with run four(1) sm show thesis by (rule that)
qed

lemma login_run:
  assumes ids: "getElementById d ''login-email'' = Some em"
      "getElementById d ''login-password'' = Some pw"
    and layout: "fields_laid_out d [em, pw]"
  obtains d2 where
    "loginForm_submit form d =
       Done (if email_verdict (value_of d em) = None \<and>
                login_password_verdict (value_of d pw) = None
             then showAlert ''info''
                    (utf16 ''Login functionality would be handled by your backend.'') d2
             else d2)"
    and "same_page d d2"
    and "shown_message d2 em = email_verdict (value_of d em)"
    and "shown_message d2 pw = login_password_verdict (value_of d pw)"
    and "\<forall>n\<in>set [em, pw].
           visual_states d2 n = (if shown_message d2 n = None then [Success] else [Error])"
proof -
  from layout obtain e1 e2 where e: "error_element_of d em = Some e1"
      "error_element_of d pw = Some e2"
    and dist: "distinct [em, pw, e1, e2]"
    by (rule laid_out2)
  define d2 where "d2 = mark pw e2 (login_password_verdict (value_of d pw))
    (mark em e1 (email_verdict (value_of d em)) d)"
  note two = two_marks [OF dist, where d = d and ?r1.0 = "email_verdict (value_of d em)"
      and ?r2.0 = "login_password_verdict (value_of d pw)", folded d2_def]
  have run: "loginForm_submit form d =
       Done (if email_verdict (value_of d em) = None \<and>
                login_password_verdict (value_of d pw) = None
             then showAlert ''info''
                    (utf16 ''Login functionality would be handled by your backend.'') d2
             else d2)"
    unfolding loginForm_submit_def d2_def
    by (simp add: ids e Let_def login_blocks(1) [where e = e1] login_blocks(2) [where e = e2])
  have sm: "shown_message d2 em = email_verdict (value_of d em)"
    "shown_message d2 pw = login_password_verdict (value_of d pw)"
    using e same_page_error_element [OF two(1)] two(2-3)
    by (simp_all add: shown_message_def)
  have "\<forall>n\<in>set [em, pw].
           visual_states d2 n = (if shown_message d2 n = None then [Success] else [Error])"
    using sm two(4-5) by simp
  with run two(1) sm show thesis by (rule that)
qed

lemma signup_run:
  assumes ids: "getElementById d ''signup-name'' = Some nm"
      "getElementById d ''signup-email'' = Some em"
      "getElementById d ''signup-password'' = Some pw"
      "getElementById d ''signup-confirm'' = Some cf"
    and layout: "fields_laid_out d [nm, em, pw, cf]"
  obtains d4 where
    "signupForm_submit form d =
       Done (if name_verdict (value_of d nm) = None \<and> email_verdict (value_of d em) = None \<and>
                signup_password_verdict (value_of d pw) = None \<and>
                confirm_verdict (value_of d pw) (value_of d cf) = None
             then form_reset form
                    (showAlert ''success'' (utf16 ''Account created successfully!'') d4)
             else d4)"
    and "same_page d d4"
    and "shown_message d4 nm = name_verdict (value_of d nm)"
    and "shown_message d4 em = email_verdict (value_of d em)"
    and "shown_message d4 pw = signup_password_verdict (value_of d pw)"
    and "shown_message d4 cf = confirm_verdict (value_of d pw) (value_of d cf)"
    and "\<forall>n\<in>set [nm, em, pw, cf].
           visual_states d4 n = (if shown_message d4 n = None then [Success] else [Error])"
proof -
  from layout obtain e1 e2 e3 e4 where e: "error_element_of d nm = Some e1"
      "error_element_of d em = Some e2" "error_element_of d pw = Some e3"
      "error_element_of d cf = Some e4"
    and dist: "distinct [nm, em, pw, cf, e1, e2, e3, e4]"
    by (rule laid_out4)
  define d4 where "d4 = mark cf e4 (confirm_verdict (value_of d pw) (value_of d cf))
    (mark pw e3 (signup_password_verdict (value_of d pw))
      (mark em e2 (email_verdict (value_of d em))
        (mark nm e1 (name_verdict (value_of d nm)) d)))"
  note four = four_marks [OF dist, where d = d and ?r1.0 = "name_verdict (value_of d nm)"
      and ?r2.0 = "email_verdict (value_of d em)"
      and ?r3.0 = "signup_password_verdict (value_of d pw)"
      and ?r4.0 = "confirm_verdict (value_of d pw) (value_of d cf)", folded d4_def]
  have run: "signupForm_submit form d =
       Done (if name_verdict (value_of d nm) = None \<and> email_verdict (value_of d em) = None \<and>
                signup_password_verdict (value_of d pw) = None \<and>
                confirm_verdict (value_of d pw) (value_of d cf) = None
             then form_reset form
                    (showAlert ''success'' (utf16 ''Account created successfully!'') d4)
             else d4)"
    unfolding signupForm_submit_def d4_def
    by (simp add: ids e Let_def signup_blocks(1) [where e = e1]
        signup_blocks(2) [where e = e2] signup_blocks(3) [where e = e3]
        signup_blocks(4) [where e = e4])
  have sm: "shown_message d4 nm = name_verdict (value_of d nm)"
    "shown_message d4 em = email_verdict (value_of d em)"
    "shown_message d4 pw = signup_password_verdict (value_of d pw)"
    "shown_message d4 cf = confirm_verdict (value_of d pw) (value_of d cf)"
    using e same_page_error_element [OF four(1)] four(2-5)
    by (simp_all add: shown_message_def)
  have "\<forall>n\<in>set [nm, em, pw, cf].
           visual_states d4 n = (if shown_message d4 n = None then [Success] else [Error])"
    using sm four(6-9) by simp
  with run four(1) sm show thesis by (rule that)
qed

subsection \<open>After the alert and the reset\<close>

lemma after_alert_and_reset:
  fixes d4 :: document and form :: node and type :: string and message :: jsstring
  defines "d6 \<equiv> form_reset form (showAlert type message d4)"
  shows "custom_alerts d6 =
      [\<lparr>alert_ref = created d4, alert_className = ''custom-alert alert-'' @ type,
        alert_message = message, alert_background = alert_style type\<rparr>]"
    and "created d6 = Suc (created d4)"
    and "form_inputs d6 = form_inputs d4"
    and "closest_form_group d6 = closest_form_group d4"
    and "\<forall>n\<in>set (form_listed d4 form). value_of d6 n = defaultValue (elements d4 n)"
    and "visual_states d6 n = visual_states d4 n"
    and "shown_message d6 n = shown_message d4 n"
proof -
  show "custom_alerts d6 =
      [\<lparr>alert_ref = created d4, alert_className = ''custom-alert alert-'' @ type,
        alert_message = message, alert_background = alert_style type\<rparr>]"
    "created d6 = Suc (created d4)" "form_inputs d6 = form_inputs d4"
    "closest_form_group d6 = closest_form_group d4"
    "\<forall>n\<in>set (form_listed d4 form). value_of d6 n = defaultValue (elements d4 n)"
    "visual_states d6 n = visual_states d4 n"
    unfolding d6_def
    by (simp_all add: form_reset_eq showAlert_frame custom_alerts_showAlert created_showAlert
        value_of_def visual_states_def has_class_def)
  have "error_element_of d6 = error_element_of d4"
    unfolding d6_def
    by (auto simp: form_reset_eq showAlert_frame error_element_of_def fun_eq_iff
        split: option.splits)
  moreover have "shown_at d6 e = shown_at d4 e" for e
    unfolding d6_def
    by (simp add: form_reset_eq showAlert_frame shown_at_def has_class_def)
  ultimately show "shown_message d6 n = shown_message d4 n"
    by (simp add: shown_message_def split: option.splits)
qed

subsection \<open>The example pages\<close>

lemma form_page_layout:
  "fields_laid_out (form_page ids vs) [1, 2, 3, 4]"
  "fields_laid_out (form_page ids vs) [1, 2]"
  "list_all (\<lambda>n. closest_form_group (form_page ids vs) n \<noteq> None)
     (form_inputs (form_page ids vs) 0)"
  "custom_alerts (form_page ids vs) = []"
  "form_inputs (form_page ids vs) 0 = [1, 2, 3, 4]"
  "form_listed (form_page ids vs) 0 = [1, 2, 3, 4]"
  by (simp_all add: fields_laid_out_def error_element_of_def form_page_def empty_page_def)

lemma form_page_values:
  "value_of (form_page ids (a # vs)) 1 = a"
  "value_of (form_page ids (a # vs)) (Suc 0) = a"
  "value_of (form_page ids (a # b # vs')) 2 = b"
  "value_of (form_page ids [a, b, c, e]) 3 = c" "value_of (form_page ids [a, b, c, e]) 4 = e"
  by (simp_all add: value_of_def form_page_def empty_page_def control_def blank_def)

lemma contact_page_ids:
  "getElementById (contact_page vs) ''name'' = Some 1"
  "getElementById (contact_page vs) ''email'' = Some 2"
  "getElementById (contact_page vs) ''subject'' = Some 3"
  "getElementById (contact_page vs) ''message'' = Some 4"
  by (simp_all add: contact_page_def form_page_def empty_page_def)

lemma login_page_ids:
  "getElementById (login_page vs) ''login-email'' = Some 1"
  "getElementById (login_page vs) ''login-password'' = Some 2"
  by (simp_all add: login_page_def form_page_def empty_page_def)

lemma signup_page_ids:
  "getElementById (signup_page vs) ''signup-name'' = Some 1"
  "getElementById (signup_page vs) ''signup-email'' = Some 2"
  "getElementById (signup_page vs) ''signup-password'' = Some 3"
  "getElementById (signup_page vs) ''signup-confirm'' = Some 4"
  by (simp_all add: signup_page_def form_page_def empty_page_def)

lemma example_values:
  "trim (utf16 ''Jane'') \<noteq> []" "trim (utf16 ''jane@x.com'') \<noteq> []"
  "validateEmail (utf16 ''jane@x.com'')" "utf16 ''General'' \<noteq> []"
  "trim (utf16 ''Hello there, this is long enough.'') \<noteq> []"
  "10 \<le> length (trim (utf16 ''Hello there, this is long enough.''))"
  "trim (utf16 ''short msg'') \<noteq> []" "length (trim (utf16 ''short msg'')) = 9"
  by (simp_all add: trim_def utf16_def is_white_space_def validateEmail_def
      re_test_anchored_def email_re_def Many1_def not_space_or_at_def commercial_at_def
      full_stop_def)

subsection \<open>The contact form\<close>

lemma contact_outcome:
  assumes ids: "getElementById d ''name'' = Some nm" "getElementById d ''email'' = Some em"
      "getElementById d ''subject'' = Some sb" "getElementById d ''message'' = Some ms"
    and layout: "fields_laid_out d [nm, em, sb, ms]"
    and groups: "list_all (\<lambda>n. closest_form_group d n \<noteq> None) (form_inputs d form)"
  defines "d' \<equiv> document_after (contactForm_submit form d)"
  shows "returned (contactForm_submit form d) \<and>
    (if name_verdict (value_of d nm) = None \<and> email_verdict (value_of d em) = None \<and>
        subject_verdict (value_of d sb) = None \<and> message_verdict (value_of d ms) = None
     then
       custom_alerts d' =
         [\<lparr>alert_ref = created d, alert_className = ''custom-alert alert-success'',
           alert_message = utf16 ''Thank you! Your message has been sent successfully.'',
           alert_background = Some ''#dcfce7''\<rparr>] \<and>
       created d' = Suc (created d) \<and>
       (\<forall>n\<in>set (form_listed d form). value_of d' n = defaultValue (elements d n)) \<and>
       (\<forall>n\<in>set (form_inputs d form). visual_states d' n = [Neutral])
     else
       custom_alerts d' = custom_alerts d \<and> created d' = created d \<and>
       shown_message d' nm = name_verdict (value_of d nm) \<and>
       shown_message d' em = email_verdict (value_of d em) \<and>
       shown_message d' sb = subject_verdict (value_of d sb) \<and>
       shown_message d' ms = message_verdict (value_of d ms) \<and>
       (\<forall>n\<in>set [nm, em, sb, ms].
          visual_states d' n = (if shown_message d' n = None then [Success] else [Error])))"
proof -
  from ids layout obtain d4 where run: "contactForm_submit form d =
       (if name_verdict (value_of d nm) = None \<and> email_verdict (value_of d em) = None \<and>
           subject_verdict (value_of d sb) = None \<and> message_verdict (value_of d ms) = None
        then (let d6 = form_reset form (showAlert ''success''
                (utf16 ''Thank you! Your message has been sent successfully.'') d4)
              in clear_each (form_inputs d6 form) d6)
        else Done d4)"
    and page: "same_page d d4"
    and sm: "shown_message d4 nm = name_verdict (value_of d nm)"
      "shown_message d4 em = email_verdict (value_of d em)"
      "shown_message d4 sb = subject_verdict (value_of d sb)"
      "shown_message d4 ms = message_verdict (value_of d ms)"
    and vs: "\<forall>n\<in>set [nm, em, sb, ms].
           visual_states d4 n = (if shown_message d4 n = None then [Success] else [Error])"
    by (rule contact_run)
  show ?thesis
  proof (cases "name_verdict (value_of d nm) = None \<and> email_verdict (value_of d em) = None \<and>
      subject_verdict (value_of d sb) = None \<and> message_verdict (value_of d ms) = None")
    case False
    then have "contactForm_submit form d = Done d4"
      unfolding run by (rule if_not_P)
    then have after: "d' = d4" "returned (contactForm_submit form d)"
      by (simp_all add: d'_def)
    have "custom_alerts d4 = custom_alerts d" "created d4 = created d"
      using page by (simp_all add: same_page_def)
    with sm vs after(2) show ?thesis
      unfolding after(1) if_not_P [OF False] by simp
  next
    case True
    define d6 where "d6 = form_reset form (showAlert ''success''
      (utf16 ''Thank you! Your message has been sent successfully.'') d4)"
    note d6 = after_alert_and_reset [where ?d4.0 = d4 and form = form and type = "''success''"
        and message = "utf16 ''Thank you! Your message has been sent successfully.''",
        folded d6_def]
    have same: "form_inputs d4 = form_inputs d" "closest_form_group d4 = closest_form_group d"
      "created d4 = created d" "form_listed d4 = form_listed d"
      "\<And>k. defaultValue (elements d4 k) = defaultValue (elements d k)"
      using page by (simp_all add: same_page_def)
    from groups have "list_all (\<lambda>n. closest_form_group d6 n \<noteq> None) (form_inputs d6 form)"
      by (simp add: d6(3,4) same)
    then obtain d7 where d7: "clear_each (form_inputs d6 form) d6 = Done d7" "same_page d6 d7"
      "\<forall>n\<in>set (form_inputs d6 form). \<not> has_class d7 n ''error'' \<and> \<not> has_class d7 n ''success''"
      using clear_each_props by blast
    have "contactForm_submit form d = clear_each (form_inputs d6 form) d6"
      unfolding run d6_def Let_def using True by (rule if_P)
    then have after: "d' = d7" "returned (contactForm_submit form d)"
      using d7(1) by (simp_all add: d'_def)
    have "custom_alerts d7 = custom_alerts d6" "created d7 = created d6"
      using d7(2) by (simp_all add: same_page_def)
    then have "custom_alerts d7 =
         [\<lparr>alert_ref = created d, alert_className = ''custom-alert alert-success'',
           alert_message = utf16 ''Thank you! Your message has been sent successfully.'',
           alert_background = Some ''#dcfce7''\<rparr>]" "created d7 = Suc (created d)"
      by (simp_all add: d6(1,2) same alert_style_def)
    moreover have "\<forall>n\<in>set (form_listed d form). value_of d7 n = defaultValue (elements d n)"
      using d6(5) same_page_value [OF d7(2)] by (simp add: same)
    moreover have "\<forall>n\<in>set (form_inputs d form). visual_states d7 n = [Neutral]"
      using d7(3) by (simp add: neutral_iff d6(3) same)
    ultimately show ?thesis
      unfolding after(1) if_P [OF True] using after(2) by simp
  qed
qed

text \<open>
  Claim C1. On a page where the four fields of the contact form exist, each in a form
  group of its own with an error-message element, and where every control of the form
  has a form group: the listener returns. When all four values are valid (name not
  blank; email not blank and matching the pattern; subject not empty; message not
  blank and at least 10 code units long after trimming) it shows the success alert,
  the only alert then and the only element created, resets the controls of the form to
  their default values and leaves every control of the form in the neutral state.
  Otherwise it creates no alert and leaves the alerts as they were, every field shows
  the message of its first failing test or none, and a field is in the error state
  when it shows a message and in the success state when it shows none.
\<close>

theorem contact_submission:
  assumes ids: "getElementById d ''name'' = Some nm" "getElementById d ''email'' = Some em"
      "getElementById d ''subject'' = Some sb" "getElementById d ''message'' = Some ms"
    and layout: "fields_laid_out d [nm, em, sb, ms]"
    and groups: "list_all (\<lambda>n. closest_form_group d n \<noteq> None) (form_inputs d form)"
  shows "let valid = (trim (value_of d nm) \<noteq> [] \<and>
                      trim (value_of d em) \<noteq> [] \<and> validateEmail (value_of d em) \<and>
                      value_of d sb \<noteq> [] \<and>
                      trim (value_of d ms) \<noteq> [] \<and> 10 \<le> length (trim (value_of d ms)));
             d' = document_after (contactForm_submit form d)
         in returned (contactForm_submit form d) \<and>
            (if valid then
               custom_alerts d' =
                 [\<lparr>alert_ref = created d, alert_className = ''custom-alert alert-success'',
                   alert_message =
                     utf16 ''Thank you! Your message has been sent successfully.'',
                   alert_background = Some ''#dcfce7''\<rparr>] \<and>
               created d' = Suc (created d) \<and>
               (\<forall>n\<in>set (form_listed d form). value_of d' n = defaultValue (elements d n)) \<and>
               (\<forall>n\<in>set (form_inputs d form). visual_states d' n = [Neutral])
             else
               custom_alerts d' = custom_alerts d \<and> created d' = created d \<and>
               shown_message d' nm =
                 (if trim (value_of d nm) = [] then Some (utf16 ''Name is required'')
                  else None) \<and>
               shown_message d' em =
                 (if trim (value_of d em) = [] then Some (utf16 ''Email is required'')
                  else if \<not> validateEmail (value_of d em)
                    then Some (utf16 ''Please enter a valid email'')
                  else None) \<and>
               shown_message d' sb =
                 (if value_of d sb = [] then Some (utf16 ''Please select a subject'')
                  else None) \<and>
               shown_message d' ms =
                 (if trim (value_of d ms) = [] then Some (utf16 ''Message is required'')
                  else if length (trim (value_of d ms)) < 10
                    then Some (utf16 ''Message must be at least 10 characters'')
                  else None) \<and>
               (\<forall>n\<in>set [nm, em, sb, ms].
                  visual_states d' n =
                    (if shown_message d' n = None then [Success] else [Error])))"
proof -
  have valid: "name_verdict (value_of d nm) = None \<and> email_verdict (value_of d em) = None \<and>
      subject_verdict (value_of d sb) = None \<and> message_verdict (value_of d ms) = None \<longleftrightarrow>
    trim (value_of d nm) \<noteq> [] \<and> trim (value_of d em) \<noteq> [] \<and> validateEmail (value_of d em) \<and>
    value_of d sb \<noteq> [] \<and> trim (value_of d ms) \<noteq> [] \<and> 10 \<le> length (trim (value_of d ms))"
    by (auto simp: name_verdict_def email_verdict_def subject_verdict_def message_verdict_def)
  show ?thesis
    using contact_outcome [OF ids layout groups]
    unfolding Let_def valid
    unfolding name_verdict_def email_verdict_def subject_verdict_def message_verdict_def .
qed

theorem contact_submission_witness:
  "getElementById (contact_page [utf16 ''Jane'', utf16 ''jane@x.com'', utf16 ''General'',
       utf16 ''short msg'']) ''name'' = Some 1 \<and>
   getElementById (contact_page [utf16 ''Jane'', utf16 ''jane@x.com'', utf16 ''General'',
       utf16 ''short msg'']) ''email'' = Some 2 \<and>
   getElementById (contact_page [utf16 ''Jane'', utf16 ''jane@x.com'', utf16 ''General'',
       utf16 ''short msg'']) ''subject'' = Some 3 \<and>
   getElementById (contact_page [utf16 ''Jane'', utf16 ''jane@x.com'', utf16 ''General'',
       utf16 ''short msg'']) ''message'' = Some 4 \<and>
   fields_laid_out (contact_page [utf16 ''Jane'', utf16 ''jane@x.com'', utf16 ''General'',
       utf16 ''short msg'']) [1, 2, 3, 4] \<and>
   list_all (\<lambda>n. closest_form_group (contact_page [utf16 ''Jane'', utf16 ''jane@x.com'', utf16 ''General'',
       utf16 ''short msg'']) n \<noteq> None) (form_inputs (contact_page [utf16 ''Jane'', utf16 ''jane@x.com'', utf16 ''General'',
       utf16 ''short msg'']) 0) \<and>
   map alert_className (custom_alerts (document_after (contactForm_submit 0
     (contact_page [utf16 ''Jane'', utf16 ''jane@x.com'', utf16 ''General'',
        utf16 ''Hello there, this is long enough.''])))) = [''custom-alert alert-success''] \<and>
   map (visual_states (document_after (contactForm_submit 0
     (contact_page [utf16 ''Jane'', utf16 ''jane@x.com'', utf16 ''General'',
        utf16 ''Hello there, this is long enough.''])))) [1, 2, 3, 4] =
     [[Neutral], [Neutral], [Neutral], [Neutral]] \<and>
   custom_alerts (document_after (contactForm_submit 0 (contact_page [utf16 ''Jane'', utf16 ''jane@x.com'', utf16 ''General'',
       utf16 ''short msg'']))) = [] \<and>
   map (shown_message (document_after (contactForm_submit 0 (contact_page [utf16 ''Jane'', utf16 ''jane@x.com'', utf16 ''General'',
       utf16 ''short msg''])))) [1, 2, 3, 4] =
     [None, None, None, Some (utf16 ''Message must be at least 10 characters'')] \<and>
   map (visual_states (document_after (contactForm_submit 0 (contact_page [utf16 ''Jane'', utf16 ''jane@x.com'', utf16 ''General'',
       utf16 ''short msg''])))) [1, 2, 3, 4] =
     [[Success], [Success], [Success], [Error]]"
proof -
  have page: "fields_laid_out (contact_page vs) [1, 2, 3, 4]"
    "list_all (\<lambda>n. closest_form_group (contact_page vs) n \<noteq> None)
       (form_inputs (contact_page vs) 0)"
    "custom_alerts (contact_page vs) = []"
    "form_inputs (contact_page vs) 0 = [1, 2, 3, 4]" for vs
    unfolding contact_page_def by (rule form_page_layout)+
  have vals: "value_of (contact_page [a, b, c, e]) 1 = a"
    "value_of (contact_page [a, b, c, e]) (Suc 0) = a"
    "value_of (contact_page [a, b, c, e]) 2 = b" "value_of (contact_page [a, b, c, e]) 3 = c"
    "value_of (contact_page [a, b, c, e]) 4 = e" for a b c e
    unfolding contact_page_def by (rule form_page_values)+
  note good = contact_submission [OF contact_page_ids page(1,2),
      of "[utf16 ''Jane'', utf16 ''jane@x.com'', utf16 ''General'',
           utf16 ''Hello there, this is long enough.'']"]
  note short = contact_submission [OF contact_page_ids page(1,2),
      of "[utf16 ''Jane'', utf16 ''jane@x.com'', utf16 ''General'', utf16 ''short msg'']"]
  have a: "map alert_className (custom_alerts (document_after (contactForm_submit 0
     (contact_page [utf16 ''Jane'', utf16 ''jane@x.com'', utf16 ''General'',
        utf16 ''Hello there, this is long enough.''])))) = [''custom-alert alert-success'']"
    "map (visual_states (document_after (contactForm_submit 0
     (contact_page [utf16 ''Jane'', utf16 ''jane@x.com'', utf16 ''General'',
        utf16 ''Hello there, this is long enough.''])))) [1, 2, 3, 4] =
     [[Neutral], [Neutral], [Neutral], [Neutral]]"
    using good by (simp_all add: Let_def vals example_values page(4))
  have b: "custom_alerts (document_after (contactForm_submit 0 (contact_page [utf16 ''Jane'', utf16 ''jane@x.com'', utf16 ''General'',
       utf16 ''short msg'']))) = []"
    "map (shown_message (document_after (contactForm_submit 0 (contact_page [utf16 ''Jane'', utf16 ''jane@x.com'', utf16 ''General'',
       utf16 ''short msg''])))) [1, 2, 3, 4] =
     [None, None, None, Some (utf16 ''Message must be at least 10 characters'')]"
    "map (visual_states (document_after (contactForm_submit 0 (contact_page [utf16 ''Jane'', utf16 ''jane@x.com'', utf16 ''General'',
       utf16 ''short msg''])))) [1, 2, 3, 4] =
     [[Success], [Success], [Success], [Error]]"
    using short by (simp_all add: Let_def vals example_values page(3))
  from a b contact_page_ids [of "[utf16 ''Jane'', utf16 ''jane@x.com'', utf16 ''General'',
      utf16 ''short msg'']"] page(1,2) [of "[utf16 ''Jane'', utf16 ''jane@x.com'',
      utf16 ''General'', utf16 ''short msg'']"]
  show ?thesis
    by simp
qed

subsection \<open>The signup form\<close>

lemma signup_outcome:
  fixes form :: node
  assumes ids: "getElementById d ''signup-name'' = Some nm"
      "getElementById d ''signup-email'' = Some em"
      "getElementById d ''signup-password'' = Some pw"
      "getElementById d ''signup-confirm'' = Some cf"
    and layout: "fields_laid_out d [nm, em, pw, cf]"
  defines "d' \<equiv> document_after (signupForm_submit form d)"
  shows "returned (signupForm_submit form d) \<and>
    (if name_verdict (value_of d nm) = None \<and> email_verdict (value_of d em) = None \<and>
        signup_password_verdict (value_of d pw) = None \<and>
        confirm_verdict (value_of d pw) (value_of d cf) = None
     then
       custom_alerts d' =
         [\<lparr>alert_ref = created d, alert_className = ''custom-alert alert-success'',
           alert_message = utf16 ''Account created successfully!'',
           alert_background = Some ''#dcfce7''\<rparr>] \<and>
       created d' = Suc (created d) \<and>
       (\<forall>n\<in>set (form_listed d form). value_of d' n = defaultValue (elements d n)) \<and>
       (\<forall>n\<in>set [nm, em, pw, cf]. visual_states d' n = [Success])
     else
       custom_alerts d' = custom_alerts d \<and> created d' = created d \<and>
       shown_message d' nm = name_verdict (value_of d nm) \<and>
       shown_message d' em = email_verdict (value_of d em) \<and>
       shown_message d' pw = signup_password_verdict (value_of d pw) \<and>
       shown_message d' cf = confirm_verdict (value_of d pw) (value_of d cf) \<and>
       (\<forall>n\<in>set [nm, em, pw, cf].
          visual_states d' n = (if shown_message d' n = None then [Success] else [Error])))"
proof -
  from ids layout obtain d4 where run: "signupForm_submit form d =
       Done (if name_verdict (value_of d nm) = None \<and> email_verdict (value_of d em) = None \<and>
                signup_password_verdict (value_of d pw) = None \<and>
                confirm_verdict (value_of d pw) (value_of d cf) = None
             then form_reset form
                    (showAlert ''success'' (utf16 ''Account created successfully!'') d4)
             else d4)"
    and page: "same_page d d4"
    and sm: "shown_message d4 nm = name_verdict (value_of d nm)"
      "shown_message d4 em = email_verdict (value_of d em)"
      "shown_message d4 pw = signup_password_verdict (value_of d pw)"
      "shown_message d4 cf = confirm_verdict (value_of d pw) (value_of d cf)"
    and vs: "\<forall>n\<in>set [nm, em, pw, cf].
           visual_states d4 n = (if shown_message d4 n = None then [Success] else [Error])"
    by (rule signup_run)
  have ret: "returned (signupForm_submit form d)"
    by (simp add: run)
  have same: "created d4 = created d" "form_listed d4 = form_listed d"
    "custom_alerts d4 = custom_alerts d"
    "\<And>k. defaultValue (elements d4 k) = defaultValue (elements d k)"
    using page by (simp_all add: same_page_def)
  show ?thesis
  proof (cases "name_verdict (value_of d nm) = None \<and> email_verdict (value_of d em) = None \<and>
      signup_password_verdict (value_of d pw) = None \<and>
      confirm_verdict (value_of d pw) (value_of d cf) = None")
    case False
    have after: "d' = d4"
      unfolding d'_def run if_not_P [OF False] by simp
    from sm vs ret same show ?thesis
      unfolding after if_not_P [OF False] by simp
  next
    case True
    define d6 where "d6 = form_reset form
      (showAlert ''success'' (utf16 ''Account created successfully!'') d4)"
    note d6 = after_alert_and_reset [where ?d4.0 = d4 and form = form and type = "''success''"
        and message = "utf16 ''Account created successfully!''", folded d6_def]
    have after: "d' = d6"
      unfolding d'_def run if_P [OF True] d6_def by simp
    have "\<forall>n\<in>set [nm, em, pw, cf]. visual_states d6 n = [Success]"
      using True sm vs by (simp add: d6(6))
    moreover have "\<forall>n\<in>set (form_listed d form). value_of d6 n = defaultValue (elements d n)"
      using d6(5) by (simp add: same)
    moreover have "custom_alerts d6 =
         [\<lparr>alert_ref = created d, alert_className = ''custom-alert alert-success'',
           alert_message = utf16 ''Account created successfully!'',
           alert_background = Some ''#dcfce7''\<rparr>]" "created d6 = Suc (created d)"
      by (simp_all add: d6(1,2) same alert_style_def)
    ultimately show ?thesis
      unfolding after if_P [OF True] using ret by simp
  qed
qed

text \<open>
  Claim C9. On a page where the four signup fields exist, each in a form group of its
  own with an error-message element, a submission with four valid values shows the
  success alert and resets the controls of the form to their default values, and each
  of the four fields is in the success state afterwards: nothing clears it.
\<close>

theorem signup_keeps_success:
  assumes ids: "getElementById d ''signup-name'' = Some nm"
      "getElementById d ''signup-email'' = Some em"
      "getElementById d ''signup-password'' = Some pw"
      "getElementById d ''signup-confirm'' = Some cf"
    and layout: "fields_laid_out d [nm, em, pw, cf]"
    and valid: "trim (value_of d nm) \<noteq> []"
      "trim (value_of d em) \<noteq> []" "validateEmail (value_of d em)"
      "trim (value_of d pw) \<noteq> []" "8 \<le> length (value_of d pw)"
      "trim (value_of d cf) \<noteq> []" "value_of d pw = value_of d cf"
  shows "let d' = document_after (signupForm_submit form d)
         in returned (signupForm_submit form d) \<and>
            custom_alerts d' =
              [\<lparr>alert_ref = created d, alert_className = ''custom-alert alert-success'',
                alert_message = utf16 ''Account created successfully!'',
                alert_background = Some ''#dcfce7''\<rparr>] \<and>
            (\<forall>n\<in>set (form_listed d form). value_of d' n = defaultValue (elements d n)) \<and>
            (\<forall>n\<in>set [nm, em, pw, cf]. visual_states d' n = [Success])"
proof -
  from valid have "name_verdict (value_of d nm) = None \<and> email_verdict (value_of d em) = None \<and>
      signup_password_verdict (value_of d pw) = None \<and>
      confirm_verdict (value_of d pw) (value_of d cf) = None"
    by (simp add: name_verdict_def email_verdict_def signup_password_verdict_def
        confirm_verdict_def validatePassword_def)
  then show ?thesis
    using signup_outcome [OF ids layout, of form]
    unfolding Let_def by simp
qed

lemma signup_page_facts:
  "fields_laid_out (signup_page vs) [1, 2, 3, 4]"
  "custom_alerts (signup_page vs) = []"
  "form_listed (signup_page vs) 0 = [1, 2, 3, 4]"
  "value_of (signup_page [a, b, c, e]) 1 = a" "value_of (signup_page [a, b, c, e]) (Suc 0) = a"
  "value_of (signup_page [a, b, c, e]) 2 = b" "value_of (signup_page [a, b, c, e]) 3 = c"
  "value_of (signup_page [a, b, c, e]) 4 = e"
  unfolding signup_page_def
  by (rule form_page_layout form_page_values)+

lemma example_passwords:
  "trim (utf16 ''Aaaaaaaa1!'') \<noteq> []" "8 \<le> length (utf16 ''Aaaaaaaa1!'')"
  "trim (utf16 ''short'') \<noteq> []" "length (utf16 ''short'') < 8" "utf16 ''short'' \<noteq> []"
  "trim (utf16 ''other'') \<noteq> []" "utf16 ''other'' \<noteq> []" "utf16 ''short'' \<noteq> utf16 ''other''"
  "trim (utf16 ''   '') = []" "length (utf16 ''   '') < 8"
  "utf16 ''Password is required'' \<noteq> utf16 ''Password must be at least 8 characters''"
  by (simp_all add: trim_def utf16_def is_white_space_def)

theorem signup_keeps_success_witness:
  "getElementById (signup_page [utf16 ''Jane'', utf16 ''jane@x.com'', utf16 ''Aaaaaaaa1!'',
      utf16 ''Aaaaaaaa1!'']) ''signup-name'' = Some 1 \<and>
   getElementById (signup_page [utf16 ''Jane'', utf16 ''jane@x.com'', utf16 ''Aaaaaaaa1!'',
      utf16 ''Aaaaaaaa1!'']) ''signup-email'' = Some 2 \<and>
   getElementById (signup_page [utf16 ''Jane'', utf16 ''jane@x.com'', utf16 ''Aaaaaaaa1!'',
      utf16 ''Aaaaaaaa1!'']) ''signup-password'' = Some 3 \<and>
   getElementById (signup_page [utf16 ''Jane'', utf16 ''jane@x.com'', utf16 ''Aaaaaaaa1!'',
      utf16 ''Aaaaaaaa1!'']) ''signup-confirm'' = Some 4 \<and>
   fields_laid_out (signup_page [utf16 ''Jane'', utf16 ''jane@x.com'', utf16 ''Aaaaaaaa1!'',
      utf16 ''Aaaaaaaa1!'']) [1, 2, 3, 4] \<and>
   trim (value_of (signup_page [utf16 ''Jane'', utf16 ''jane@x.com'', utf16 ''Aaaaaaaa1!'',
      utf16 ''Aaaaaaaa1!'']) 1) \<noteq> [] \<and> trim (value_of (signup_page [utf16 ''Jane'', utf16 ''jane@x.com'', utf16 ''Aaaaaaaa1!'',
      utf16 ''Aaaaaaaa1!'']) 2) \<noteq> [] \<and> validateEmail (value_of (signup_page [utf16 ''Jane'', utf16 ''jane@x.com'', utf16 ''Aaaaaaaa1!'',
      utf16 ''Aaaaaaaa1!'']) 2) \<and>
   trim (value_of (signup_page [utf16 ''Jane'', utf16 ''jane@x.com'', utf16 ''Aaaaaaaa1!'',
      utf16 ''Aaaaaaaa1!'']) 3) \<noteq> [] \<and> 8 \<le> length (value_of (signup_page [utf16 ''Jane'', utf16 ''jane@x.com'', utf16 ''Aaaaaaaa1!'',
      utf16 ''Aaaaaaaa1!'']) 3) \<and>
   trim (value_of (signup_page [utf16 ''Jane'', utf16 ''jane@x.com'', utf16 ''Aaaaaaaa1!'',
      utf16 ''Aaaaaaaa1!'']) 4) \<noteq> [] \<and> value_of (signup_page [utf16 ''Jane'', utf16 ''jane@x.com'', utf16 ''Aaaaaaaa1!'',
      utf16 ''Aaaaaaaa1!'']) 3 = value_of (signup_page [utf16 ''Jane'', utf16 ''jane@x.com'', utf16 ''Aaaaaaaa1!'',
      utf16 ''Aaaaaaaa1!'']) 4 \<and>
   map alert_className (custom_alerts (document_after (signupForm_submit 0 (signup_page [utf16 ''Jane'', utf16 ''jane@x.com'', utf16 ''Aaaaaaaa1!'',
      utf16 ''Aaaaaaaa1!''])))) =
     [''custom-alert alert-success''] \<and>
   map (visual_states (document_after (signupForm_submit 0 (signup_page [utf16 ''Jane'', utf16 ''jane@x.com'', utf16 ''Aaaaaaaa1!'',
      utf16 ''Aaaaaaaa1!''])))) [1, 2, 3, 4] =
     [[Success], [Success], [Success], [Success]]"
proof -
  have valid: "trim (value_of (signup_page [utf16 ''Jane'', utf16 ''jane@x.com'', utf16 ''Aaaaaaaa1!'',
      utf16 ''Aaaaaaaa1!'']) 1) \<noteq> []" "trim (value_of (signup_page [utf16 ''Jane'', utf16 ''jane@x.com'', utf16 ''Aaaaaaaa1!'',
      utf16 ''Aaaaaaaa1!'']) 2) \<noteq> []"
    "validateEmail (value_of (signup_page [utf16 ''Jane'', utf16 ''jane@x.com'', utf16 ''Aaaaaaaa1!'',
      utf16 ''Aaaaaaaa1!'']) 2)" "trim (value_of (signup_page [utf16 ''Jane'', utf16 ''jane@x.com'', utf16 ''Aaaaaaaa1!'',
      utf16 ''Aaaaaaaa1!'']) 3) \<noteq> []" "8 \<le> length (value_of (signup_page [utf16 ''Jane'', utf16 ''jane@x.com'', utf16 ''Aaaaaaaa1!'',
      utf16 ''Aaaaaaaa1!'']) 3)"
    "trim (value_of (signup_page [utf16 ''Jane'', utf16 ''jane@x.com'', utf16 ''Aaaaaaaa1!'',
      utf16 ''Aaaaaaaa1!'']) 4) \<noteq> []" "value_of (signup_page [utf16 ''Jane'', utf16 ''jane@x.com'', utf16 ''Aaaaaaaa1!'',
      utf16 ''Aaaaaaaa1!'']) 3 = value_of (signup_page [utf16 ''Jane'', utf16 ''jane@x.com'', utf16 ''Aaaaaaaa1!'',
      utf16 ''Aaaaaaaa1!'']) 4"
    by (simp_all add: signup_page_facts example_values example_passwords)
  have layout: "fields_laid_out (signup_page [utf16 ''Jane'', utf16 ''jane@x.com'', utf16 ''Aaaaaaaa1!'',
      utf16 ''Aaaaaaaa1!'']) [1, 2, 3, 4]"
    by (rule signup_page_facts)
  from valid layout signup_page_ids [of "[utf16 ''Jane'', utf16 ''jane@x.com'', utf16 ''Aaaaaaaa1!'',
      utf16 ''Aaaaaaaa1!'']"] show ?thesis
    using signup_keeps_success [OF signup_page_ids layout valid, of 0]
    by (simp add: Let_def)
qed

text \<open>
  Claim C4, as the code has it. On a laid-out signup page, a password shorter than 8
  code units is rejected: with the length message when it is not blank, with
  \<open>Password is required\<close> when it is blank (empty or white space only). A confirmation
  that differs from the password, both non-empty, is rejected: with
  \<open>Passwords do not match\<close>, or with \<open>Please confirm your password\<close> when it is blank.
  In both cases no alert is created.
\<close>

theorem signup_rejects_password_and_confirm:
  assumes ids: "getElementById d ''signup-name'' = Some nm"
      "getElementById d ''signup-email'' = Some em"
      "getElementById d ''signup-password'' = Some pw"
      "getElementById d ''signup-confirm'' = Some cf"
    and layout: "fields_laid_out d [nm, em, pw, cf]"
  shows "let d' = document_after (signupForm_submit form d)
         in (length (value_of d pw) < 8 \<longrightarrow>
               shown_message d' pw =
                 Some (if trim (value_of d pw) = [] then utf16 ''Password is required''
                       else utf16 ''Password must be at least 8 characters'') \<and>
               visual_states d' pw = [Error] \<and>
               custom_alerts d' = custom_alerts d \<and> created d' = created d) \<and>
            (value_of d pw \<noteq> [] \<and> value_of d cf \<noteq> [] \<and> value_of d pw \<noteq> value_of d cf \<longrightarrow>
               shown_message d' cf =
                 Some (if trim (value_of d cf) = [] then utf16 ''Please confirm your password''
                       else utf16 ''Passwords do not match'') \<and>
               visual_states d' cf = [Error] \<and>
               custom_alerts d' = custom_alerts d \<and> created d' = created d)"
proof -
  have short: "signup_password_verdict (value_of d pw) =
      Some (if trim (value_of d pw) = [] then utf16 ''Password is required''
            else utf16 ''Password must be at least 8 characters'')"
    if "length (value_of d pw) < 8"
    using that by (simp add: signup_password_verdict_def validatePassword_def)
  have differ: "confirm_verdict (value_of d pw) (value_of d cf) =
      Some (if trim (value_of d cf) = [] then utf16 ''Please confirm your password''
            else utf16 ''Passwords do not match'')"
    if "value_of d pw \<noteq> value_of d cf"
    using that by (simp add: confirm_verdict_def)
  show ?thesis
    using signup_outcome [OF ids layout, of form] short differ
    unfolding Let_def by (auto split: if_splits)
qed

theorem signup_rejects_password_and_confirm_witness:
  "getElementById (signup_page [utf16 ''Jane'', utf16 ''jane@x.com'', utf16 ''short'', utf16 ''other'']) ''signup-name'' = Some 1 \<and>
   getElementById (signup_page [utf16 ''Jane'', utf16 ''jane@x.com'', utf16 ''short'', utf16 ''other'']) ''signup-email'' = Some 2 \<and>
   getElementById (signup_page [utf16 ''Jane'', utf16 ''jane@x.com'', utf16 ''short'', utf16 ''other'']) ''signup-password'' = Some 3 \<and>
   getElementById (signup_page [utf16 ''Jane'', utf16 ''jane@x.com'', utf16 ''short'', utf16 ''other'']) ''signup-confirm'' = Some 4 \<and>
   fields_laid_out (signup_page [utf16 ''Jane'', utf16 ''jane@x.com'', utf16 ''short'', utf16 ''other'']) [1, 2, 3, 4] \<and>
   length (value_of (signup_page [utf16 ''Jane'', utf16 ''jane@x.com'', utf16 ''short'', utf16 ''other'']) 3) < 8 \<and>
   value_of (signup_page [utf16 ''Jane'', utf16 ''jane@x.com'', utf16 ''short'', utf16 ''other'']) 3 \<noteq> [] \<and> value_of (signup_page [utf16 ''Jane'', utf16 ''jane@x.com'', utf16 ''short'', utf16 ''other'']) 4 \<noteq> [] \<and> value_of (signup_page [utf16 ''Jane'', utf16 ''jane@x.com'', utf16 ''short'', utf16 ''other'']) 3 \<noteq> value_of (signup_page [utf16 ''Jane'', utf16 ''jane@x.com'', utf16 ''short'', utf16 ''other'']) 4 \<and>
   shown_message (document_after (signupForm_submit 0 (signup_page [utf16 ''Jane'', utf16 ''jane@x.com'', utf16 ''short'', utf16 ''other'']))) 3 =
     Some (utf16 ''Password must be at least 8 characters'') \<and>
   shown_message (document_after (signupForm_submit 0 (signup_page [utf16 ''Jane'', utf16 ''jane@x.com'', utf16 ''short'', utf16 ''other'']))) 4 =
     Some (utf16 ''Passwords do not match'') \<and>
   visual_states (document_after (signupForm_submit 0 (signup_page [utf16 ''Jane'', utf16 ''jane@x.com'', utf16 ''short'', utf16 ''other'']))) 3 = [Error] \<and>
   visual_states (document_after (signupForm_submit 0 (signup_page [utf16 ''Jane'', utf16 ''jane@x.com'', utf16 ''short'', utf16 ''other'']))) 4 = [Error] \<and>
   custom_alerts (document_after (signupForm_submit 0 (signup_page [utf16 ''Jane'', utf16 ''jane@x.com'', utf16 ''short'', utf16 ''other'']))) = []"
proof -
  have vals: "length (value_of (signup_page [utf16 ''Jane'', utf16 ''jane@x.com'', utf16 ''short'', utf16 ''other'']) 3) < 8" "value_of (signup_page [utf16 ''Jane'', utf16 ''jane@x.com'', utf16 ''short'', utf16 ''other'']) 3 \<noteq> []" "value_of (signup_page [utf16 ''Jane'', utf16 ''jane@x.com'', utf16 ''short'', utf16 ''other'']) 4 \<noteq> []"
    "value_of (signup_page [utf16 ''Jane'', utf16 ''jane@x.com'', utf16 ''short'', utf16 ''other'']) 3 \<noteq> value_of (signup_page [utf16 ''Jane'', utf16 ''jane@x.com'', utf16 ''short'', utf16 ''other'']) 4" "trim (value_of (signup_page [utf16 ''Jane'', utf16 ''jane@x.com'', utf16 ''short'', utf16 ''other'']) 3) \<noteq> []" "trim (value_of (signup_page [utf16 ''Jane'', utf16 ''jane@x.com'', utf16 ''short'', utf16 ''other'']) 4) \<noteq> []"
    by (simp_all add: signup_page_facts example_passwords)
  have layout: "fields_laid_out (signup_page [utf16 ''Jane'', utf16 ''jane@x.com'', utf16 ''short'', utf16 ''other'']) [1, 2, 3, 4]" and none: "custom_alerts (signup_page [utf16 ''Jane'', utf16 ''jane@x.com'', utf16 ''short'', utf16 ''other'']) = []"
    by (rule signup_page_facts)+
  from vals layout none signup_page_ids [of "[utf16 ''Jane'', utf16 ''jane@x.com'', utf16 ''short'', utf16 ''other'']"] show ?thesis
    using signup_rejects_password_and_confirm [OF signup_page_ids layout, of 0]
    by (simp add: Let_def)
qed

text \<open>
  The claim as it was written fails on a password of three spaces: it is shorter than
  8, and the message shown for it is \<open>Password is required\<close>, not the length message.
\<close>

theorem blank_password_counterexample:
  "length (value_of (signup_page [utf16 ''Jane'', utf16 ''jane@x.com'', utf16 ''   '', utf16 ''   '']) 3) < 8 \<and>
   shown_message (document_after (signupForm_submit 0 (signup_page [utf16 ''Jane'', utf16 ''jane@x.com'', utf16 ''   '', utf16 ''   '']))) 3 =
     Some (utf16 ''Password is required'') \<and>
   shown_message (document_after (signupForm_submit 0 (signup_page [utf16 ''Jane'', utf16 ''jane@x.com'', utf16 ''   '', utf16 ''   '']))) 3 \<noteq>
     Some (utf16 ''Password must be at least 8 characters'')"
proof -
  have layout: "fields_laid_out (signup_page [utf16 ''Jane'', utf16 ''jane@x.com'', utf16 ''   '', utf16 ''   '']) [1, 2, 3, 4]"
    by (rule signup_page_facts)
  have blank: "signup_password_verdict (value_of (signup_page [utf16 ''Jane'', utf16 ''jane@x.com'', utf16 ''   '', utf16 ''   '']) 3) = Some (utf16 ''Password is required'')"
    by (simp add: signup_password_verdict_def signup_page_facts example_passwords)
  have "shown_message (document_after (signupForm_submit 0 (signup_page [utf16 ''Jane'', utf16 ''jane@x.com'', utf16 ''   '', utf16 ''   '']))) 3 =
     Some (utf16 ''Password is required'')"
    using signup_outcome [OF signup_page_ids layout, of 0] blank
    by (simp split: if_splits)
  then show ?thesis
    by (simp add: signup_page_facts example_passwords)
qed

subsection \<open>The email value is tested as typed\<close>

lemma untrimmed_email_verdict:
  assumes "v \<noteq> []" and "is_white_space (hd v) \<or> is_white_space (last v)"
    and "validateEmail (trim v)"
  shows "\<not> validateEmail v" and "trim v \<noteq> []"
    and "email_verdict v = Some (utf16 ''Please enter a valid email'')"
proof -
  show no: "\<not> validateEmail v"
  proof
    assume "validateEmail v"
    then have "\<forall>c\<in>set v. \<not> is_white_space c"
      by (rule validateEmail_shape)
    moreover from \<open>v \<noteq> []\<close> have "hd v \<in> set v" "last v \<in> set v"
      by simp_all
    ultimately show False
      using assms(2) by blast
  qed
  from assms(3) obtain u w where "trim v = u @ commercial_at # w"
    by (rule validateEmail_shape) simp
  then show ne: "trim v \<noteq> []"
    by simp
  from no ne show "email_verdict v = Some (utf16 ''Please enter a valid email'')"
    by (simp add: email_verdict_def)
qed

text \<open>
  Claim C8. An email value that has white space at its start or at its end and whose
  trimmed form matches the pattern does not match the pattern itself, and is not blank.
  On a laid-out page each of the three listeners (contact, login, signup) then shows
  \<open>Please enter a valid email\<close> for the email field, puts the field in the error state
  and creates no alert.
\<close>

theorem email_is_tested_untrimmed:
  assumes "v \<noteq> []" and "is_white_space (hd v) \<or> is_white_space (last v)"
    and "validateEmail (trim v)"
  shows "\<not> validateEmail v \<and> trim v \<noteq> [] \<and>
    (getElementById d ''name'' = Some cnm \<and> getElementById d ''email'' = Some cem \<and>
     getElementById d ''subject'' = Some csb \<and> getElementById d ''message'' = Some cms \<and>
     fields_laid_out d [cnm, cem, csb, cms] \<and> value_of d cem = v \<longrightarrow>
       shown_message (document_after (contactForm_submit cform d)) cem =
         Some (utf16 ''Please enter a valid email'') \<and>
       visual_states (document_after (contactForm_submit cform d)) cem = [Error] \<and>
       custom_alerts (document_after (contactForm_submit cform d)) = custom_alerts d \<and>
       created (document_after (contactForm_submit cform d)) = created d) \<and>
    (getElementById d ''login-email'' = Some lem \<and>
     getElementById d ''login-password'' = Some lpw \<and>
     fields_laid_out d [lem, lpw] \<and> value_of d lem = v \<longrightarrow>
       shown_message (document_after (loginForm_submit lform d)) lem =
         Some (utf16 ''Please enter a valid email'') \<and>
       visual_states (document_after (loginForm_submit lform d)) lem = [Error] \<and>
       custom_alerts (document_after (loginForm_submit lform d)) = custom_alerts d \<and>
       created (document_after (loginForm_submit lform d)) = created d) \<and>
    (getElementById d ''signup-name'' = Some snm \<and>
     getElementById d ''signup-email'' = Some sem \<and>
     getElementById d ''signup-password'' = Some spw \<and>
     getElementById d ''signup-confirm'' = Some scf \<and>
     fields_laid_out d [snm, sem, spw, scf] \<and> value_of d sem = v \<longrightarrow>
       shown_message (document_after (signupForm_submit sform d)) sem =
         Some (utf16 ''Please enter a valid email'') \<and>
       visual_states (document_after (signupForm_submit sform d)) sem = [Error] \<and>
       custom_alerts (document_after (signupForm_submit sform d)) = custom_alerts d \<and>
       created (document_after (signupForm_submit sform d)) = created d)"
proof (intro conjI impI)
  note verdict = untrimmed_email_verdict [OF assms]
  show "\<not> validateEmail v" "trim v \<noteq> []"
    by (rule verdict)+
  {
    assume c: "getElementById d ''name'' = Some cnm \<and> getElementById d ''email'' = Some cem \<and>
      getElementById d ''subject'' = Some csb \<and> getElementById d ''message'' = Some cms \<and>
      fields_laid_out d [cnm, cem, csb, cms] \<and> value_of d cem = v"
    then have ids: "getElementById d ''name'' = Some cnm" "getElementById d ''email'' = Some cem"
      "getElementById d ''subject'' = Some csb" "getElementById d ''message'' = Some cms"
      and layout: "fields_laid_out d [cnm, cem, csb, cms]" and v: "value_of d cem = v"
      by simp_all
    from ids layout obtain d4 where run: "contactForm_submit cform d =
       (if name_verdict (value_of d cnm) = None \<and> email_verdict (value_of d cem) = None \<and>
           subject_verdict (value_of d csb) = None \<and> message_verdict (value_of d cms) = None
        then (let d6 = form_reset cform (showAlert ''success''
                (utf16 ''Thank you! Your message has been sent successfully.'') d4)
              in clear_each (form_inputs d6 cform) d6)
        else Done d4)"
      and page: "same_page d d4"
      and sm: "shown_message d4 cem = email_verdict (value_of d cem)"
      and vs: "\<forall>n\<in>set [cnm, cem, csb, cms].
           visual_states d4 n = (if shown_message d4 n = None then [Success] else [Error])"
      by (rule contact_run)
    have after: "document_after (contactForm_submit cform d) = d4"
      by (simp add: run v verdict(3))
    show "shown_message (document_after (contactForm_submit cform d)) cem =
         Some (utf16 ''Please enter a valid email'')"
      "visual_states (document_after (contactForm_submit cform d)) cem = [Error]"
      "custom_alerts (document_after (contactForm_submit cform d)) = custom_alerts d"
      "created (document_after (contactForm_submit cform d)) = created d"
      using sm vs page unfolding after by (simp_all add: v verdict(3) same_page_def)
  }
  {
    assume c: "getElementById d ''login-email'' = Some lem \<and>
      getElementById d ''login-password'' = Some lpw \<and>
      fields_laid_out d [lem, lpw] \<and> value_of d lem = v"
    then have ids: "getElementById d ''login-email'' = Some lem"
      "getElementById d ''login-password'' = Some lpw"
      and layout: "fields_laid_out d [lem, lpw]" and v: "value_of d lem = v"
      by simp_all
    from ids layout obtain d2 where run: "loginForm_submit lform d =
       Done (if email_verdict (value_of d lem) = None \<and>
                login_password_verdict (value_of d lpw) = None
             then showAlert ''info''
                    (utf16 ''Login functionality would be handled by your backend.'') d2
             else d2)"
      and page: "same_page d d2"
      and sm: "shown_message d2 lem = email_verdict (value_of d lem)"
      and vs: "\<forall>n\<in>set [lem, lpw].
           visual_states d2 n = (if shown_message d2 n = None then [Success] else [Error])"
      by (rule login_run)
    have after: "document_after (loginForm_submit lform d) = d2"
      by (simp add: run v verdict(3))
    show "shown_message (document_after (loginForm_submit lform d)) lem =
         Some (utf16 ''Please enter a valid email'')"
      "visual_states (document_after (loginForm_submit lform d)) lem = [Error]"
      "custom_alerts (document_after (loginForm_submit lform d)) = custom_alerts d"
      "created (document_after (loginForm_submit lform d)) = created d"
      using sm vs page unfolding after by (simp_all add: v verdict(3) same_page_def)
  }
  {
    assume c: "getElementById d ''signup-name'' = Some snm \<and>
      getElementById d ''signup-email'' = Some sem \<and>
      getElementById d ''signup-password'' = Some spw \<and>
      getElementById d ''signup-confirm'' = Some scf \<and>
      fields_laid_out d [snm, sem, spw, scf] \<and> value_of d sem = v"
    then have ids: "getElementById d ''signup-name'' = Some snm"
      "getElementById d ''signup-email'' = Some sem"
      "getElementById d ''signup-password'' = Some spw"
      "getElementById d ''signup-confirm'' = Some scf"
      and layout: "fields_laid_out d [snm, sem, spw, scf]" and v: "value_of d sem = v"
      by simp_all
    show "shown_message (document_after (signupForm_submit sform d)) sem =
         Some (utf16 ''Please enter a valid email'')"
      "visual_states (document_after (signupForm_submit sform d)) sem = [Error]"
      "custom_alerts (document_after (signupForm_submit sform d)) = custom_alerts d"
      "created (document_after (signupForm_submit sform d)) = created d"
      using signup_outcome [OF ids layout, of sform]
      by (simp_all add: v verdict(3))
  }
qed

lemma spaced_email:
  "utf16 '' jane@x.com'' \<noteq> []" "is_white_space (hd (utf16 '' jane@x.com''))"
  "trim (utf16 '' jane@x.com'') = utf16 ''jane@x.com''"
  by (simp_all add: trim_def utf16_def is_white_space_def)

theorem email_is_tested_untrimmed_witness:
  "utf16 '' jane@x.com'' \<noteq> [] \<and>
   (is_white_space (hd (utf16 '' jane@x.com'')) \<or> is_white_space (last (utf16 '' jane@x.com''))) \<and>
   validateEmail (trim (utf16 '' jane@x.com'')) \<and>
   \<not> validateEmail (utf16 '' jane@x.com'') \<and>
   getElementById (contact_page [utf16 ''Jane'', utf16 '' jane@x.com'', utf16 ''General'',
      utf16 ''Hello there, this is long enough.'']) ''name'' = Some 1 \<and> getElementById (contact_page [utf16 ''Jane'', utf16 '' jane@x.com'', utf16 ''General'',
      utf16 ''Hello there, this is long enough.'']) ''email'' = Some 2 \<and>
   getElementById (contact_page [utf16 ''Jane'', utf16 '' jane@x.com'', utf16 ''General'',
      utf16 ''Hello there, this is long enough.'']) ''subject'' = Some 3 \<and> getElementById (contact_page [utf16 ''Jane'', utf16 '' jane@x.com'', utf16 ''General'',
      utf16 ''Hello there, this is long enough.'']) ''message'' = Some 4 \<and>
   fields_laid_out (contact_page [utf16 ''Jane'', utf16 '' jane@x.com'', utf16 ''General'',
      utf16 ''Hello there, this is long enough.'']) [1, 2, 3, 4] \<and> value_of (contact_page [utf16 ''Jane'', utf16 '' jane@x.com'', utf16 ''General'',
      utf16 ''Hello there, this is long enough.'']) 2 = utf16 '' jane@x.com'' \<and>
   shown_message (document_after (contactForm_submit 0 (contact_page [utf16 ''Jane'', utf16 '' jane@x.com'', utf16 ''General'',
      utf16 ''Hello there, this is long enough.'']))) 2 =
     Some (utf16 ''Please enter a valid email'') \<and>
   getElementById (login_page [utf16 '' jane@x.com'', utf16 ''Aaaaaaaa1!'']) ''login-email'' = Some 1 \<and> getElementById (login_page [utf16 '' jane@x.com'', utf16 ''Aaaaaaaa1!'']) ''login-password'' = Some 2 \<and>
   fields_laid_out (login_page [utf16 '' jane@x.com'', utf16 ''Aaaaaaaa1!'']) [1, 2] \<and> value_of (login_page [utf16 '' jane@x.com'', utf16 ''Aaaaaaaa1!'']) 1 = utf16 '' jane@x.com'' \<and>
   shown_message (document_after (loginForm_submit 0 (login_page [utf16 '' jane@x.com'', utf16 ''Aaaaaaaa1!'']))) 1 =
     Some (utf16 ''Please enter a valid email'') \<and>
   getElementById (signup_page [utf16 ''Jane'', utf16 '' jane@x.com'', utf16 ''Aaaaaaaa1!'',
      utf16 ''Aaaaaaaa1!'']) ''signup-name'' = Some 1 \<and> getElementById (signup_page [utf16 ''Jane'', utf16 '' jane@x.com'', utf16 ''Aaaaaaaa1!'',
      utf16 ''Aaaaaaaa1!'']) ''signup-email'' = Some 2 \<and>
   getElementById (signup_page [utf16 ''Jane'', utf16 '' jane@x.com'', utf16 ''Aaaaaaaa1!'',
      utf16 ''Aaaaaaaa1!'']) ''signup-password'' = Some 3 \<and>
   getElementById (signup_page [utf16 ''Jane'', utf16 '' jane@x.com'', utf16 ''Aaaaaaaa1!'',
      utf16 ''Aaaaaaaa1!'']) ''signup-confirm'' = Some 4 \<and>
   fields_laid_out (signup_page [utf16 ''Jane'', utf16 '' jane@x.com'', utf16 ''Aaaaaaaa1!'',
      utf16 ''Aaaaaaaa1!'']) [1, 2, 3, 4] \<and> value_of (signup_page [utf16 ''Jane'', utf16 '' jane@x.com'', utf16 ''Aaaaaaaa1!'',
      utf16 ''Aaaaaaaa1!'']) 2 = utf16 '' jane@x.com'' \<and>
   shown_message (document_after (signupForm_submit 0 (signup_page [utf16 ''Jane'', utf16 '' jane@x.com'', utf16 ''Aaaaaaaa1!'',
      utf16 ''Aaaaaaaa1!'']))) 2 =
     Some (utf16 ''Please enter a valid email'')"
proof -
  have v: "utf16 '' jane@x.com'' \<noteq> []"
    "is_white_space (hd (utf16 '' jane@x.com'')) \<or> is_white_space (last (utf16 '' jane@x.com''))"
    "validateEmail (trim (utf16 '' jane@x.com''))"
    by (simp_all add: spaced_email example_values)
  have cp: "fields_laid_out (contact_page [utf16 ''Jane'', utf16 '' jane@x.com'', utf16 ''General'',
      utf16 ''Hello there, this is long enough.'']) [1, 2, 3, 4]" "value_of (contact_page [utf16 ''Jane'', utf16 '' jane@x.com'', utf16 ''General'',
      utf16 ''Hello there, this is long enough.'']) 2 = utf16 '' jane@x.com''"
    unfolding contact_page_def by (rule form_page_layout form_page_values)+
  have lp: "fields_laid_out (login_page [utf16 '' jane@x.com'', utf16 ''Aaaaaaaa1!'']) [1, 2]" "value_of (login_page [utf16 '' jane@x.com'', utf16 ''Aaaaaaaa1!'']) 1 = utf16 '' jane@x.com''"
    unfolding login_page_def by (rule form_page_layout form_page_values)+
  have sp: "fields_laid_out (signup_page [utf16 ''Jane'', utf16 '' jane@x.com'', utf16 ''Aaaaaaaa1!'',
      utf16 ''Aaaaaaaa1!'']) [1, 2, 3, 4]" "value_of (signup_page [utf16 ''Jane'', utf16 '' jane@x.com'', utf16 ''Aaaaaaaa1!'',
      utf16 ''Aaaaaaaa1!'']) 2 = utf16 '' jane@x.com''"
    by (rule signup_page_facts)+
  have a: "\<not> validateEmail (utf16 '' jane@x.com'')"
    "shown_message (document_after (contactForm_submit 0 (contact_page [utf16 ''Jane'', utf16 '' jane@x.com'', utf16 ''General'',
      utf16 ''Hello there, this is long enough.'']))) 2 =
       Some (utf16 ''Please enter a valid email'')"
    using email_is_tested_untrimmed [OF v, of "contact_page [utf16 ''Jane'', utf16 '' jane@x.com'', utf16 ''General'',
      utf16 ''Hello there, this is long enough.'']" 1 2 3 4 0]
      contact_page_ids [of "[utf16 ''Jane'', utf16 '' jane@x.com'', utf16 ''General'',
      utf16 ''Hello there, this is long enough.'']"] cp
    by simp_all
  have b: "shown_message (document_after (loginForm_submit 0 (login_page [utf16 '' jane@x.com'', utf16 ''Aaaaaaaa1!'']))) 1 =
       Some (utf16 ''Please enter a valid email'')"
    using email_is_tested_untrimmed [OF v, where d = "login_page [utf16 '' jane@x.com'', utf16 ''Aaaaaaaa1!'']" and lem = 1 and lpw = 2 and lform = 0]
      login_page_ids [of "[utf16 '' jane@x.com'', utf16 ''Aaaaaaaa1!'']"] lp
    by simp
  have c: "shown_message (document_after (signupForm_submit 0 (signup_page [utf16 ''Jane'', utf16 '' jane@x.com'', utf16 ''Aaaaaaaa1!'',
      utf16 ''Aaaaaaaa1!'']))) 2 =
       Some (utf16 ''Please enter a valid email'')"
    using email_is_tested_untrimmed [OF v, where d = "signup_page [utf16 ''Jane'', utf16 '' jane@x.com'', utf16 ''Aaaaaaaa1!'',
      utf16 ''Aaaaaaaa1!'']" and snm = 1 and sem = 2 and spw = 3
        and scf = 4 and sform = 0]
      signup_page_ids [of "[utf16 ''Jane'', utf16 '' jane@x.com'', utf16 ''Aaaaaaaa1!'',
      utf16 ''Aaaaaaaa1!'']"] sp
    by simp
  from v a b c cp lp sp contact_page_ids [of "[utf16 ''Jane'', utf16 '' jane@x.com'', utf16 ''General'',
      utf16 ''Hello there, this is long enough.'']"] login_page_ids [of "[utf16 '' jane@x.com'', utf16 ''Aaaaaaaa1!'']"]
    signup_page_ids [of "[utf16 ''Jane'', utf16 '' jane@x.com'', utf16 ''Aaaaaaaa1!'',
      utf16 ''Aaaaaaaa1!'']"]
  show ?thesis
    by simp
qed

end
